theory Spec2Isabelle
  imports Complex_Main
begin

section \<open>Python values\<close>

text \<open>
  The analyzers of the niche finder take an untyped "genre payload" and inspect it with
  \<^verbatim>\<open>isinstance\<close>. The payload is modelled as a JSON-like value. A Python \<^verbatim>\<open>str\<close> is a
  sequence of Unicode code points, so \<^verbatim>\<open>len\<close> and the substring test \<^verbatim>\<open>in\<close> count code
  points; it is modelled as a list of code point numbers. A \<^verbatim>\<open>str\<close> may hold a lone surrogate
  (\<^verbatim>\<open>json.loads\<close> returns one for the text \<^verbatim>\<open>"\\ud800"\<close>), which UTF-8 does not encode. A
  Python \<^verbatim>\<open>float\<close> is idealised as a real number (no rounding error, no NaN, no infinity).
\<close>

type_synonym pystr = "nat list"

datatype pyval =
    PNone
  | PBool bool
  | PInt int
  | PFloat real
  | PStr pystr
  | PList "pyval list"
  | PDict "(pyval \<times> pyval) list"

datatype pyerr = TypeError | AttributeError | UnicodeEncodeError | ProviderError

text \<open>Truth value testing (\<^verbatim>\<open>if not x\<close>).\<close>

fun truthy :: "pyval \<Rightarrow> bool" where
  "truthy PNone = False"
| "truthy (PBool b) = b"
| "truthy (PInt i) = (i \<noteq> 0)"
| "truthy (PFloat r) = (r \<noteq> 0)"
| "truthy (PStr s) = (s \<noteq> [])"
| "truthy (PList xs) = (xs \<noteq> [])"
| "truthy (PDict d) = (d \<noteq> [])"

text \<open>\<^verbatim>\<open>isinstance(x, (int, float, str))\<close>; \<^verbatim>\<open>bool\<close> is a subclass of \<^verbatim>\<open>int\<close>.\<close>

fun is_scalar :: "pyval \<Rightarrow> bool" where
  "is_scalar (PBool b) = True"
| "is_scalar (PInt i) = True"
| "is_scalar (PFloat r) = True"
| "is_scalar (PStr s) = True"
| "is_scalar v = False"

text \<open>Lists and dicts are not hashable: using one as a dict key raises \<^verbatim>\<open>TypeError\<close>.\<close>

fun hashable :: "pyval \<Rightarrow> bool" where
  "hashable (PList xs) = False"
| "hashable (PDict d) = False"
| "hashable v = True"

text \<open>The numeric value of a number; \<^verbatim>\<open>True\<close> is 1 and \<^verbatim>\<open>False\<close> is 0.\<close>

fun num_of :: "pyval \<Rightarrow> real option" where
  "num_of (PBool b) = Some (if b then 1 else 0)"
| "num_of (PInt i) = Some (real_of_int i)"
| "num_of (PFloat r) = Some r"
| "num_of v = None"

text \<open>Equality of dict keys: numbers compare by value (\<^verbatim>\<open>1 == 1.0 == True\<close>).\<close>

definition py_eq :: "pyval \<Rightarrow> pyval \<Rightarrow> bool" where
  "py_eq a b =
     (case num_of a of
        Some x \<Rightarrow> (case num_of b of Some y \<Rightarrow> x = y | None \<Rightarrow> False)
      | None \<Rightarrow> (case num_of b of Some y \<Rightarrow> False | None \<Rightarrow> a = b))"

text \<open>\<^verbatim>\<open>for x in v\<close>: a list yields its elements, a string its characters (each a string
  of length one), a dict its keys; anything else raises \<^verbatim>\<open>TypeError\<close>.\<close>

fun py_iter :: "pyval \<Rightarrow> pyerr + pyval list" where
  "py_iter (PList xs) = Inr xs"
| "py_iter (PStr s) = Inr (map (\<lambda>c. PStr [c]) s)"
| "py_iter (PDict d) = Inr (map fst d)"
| "py_iter v = Inl TypeError"

text \<open>\<^verbatim>\<open>len(v)\<close>.\<close>

fun py_len :: "pyval \<Rightarrow> pyerr + nat" where
  "py_len (PList xs) = Inr (length xs)"
| "py_len (PStr s) = Inr (length s)"
| "py_len (PDict d) = Inr (length d)"
| "py_len v = Inl TypeError"

subsection \<open>Dictionaries\<close>

text \<open>A \<^verbatim>\<open>dict\<close> keeps its keys in insertion order; storing under a key that is already
  present replaces the value in place and keeps the old key.\<close>

type_synonym 'v pydict = "(pyval \<times> 'v) list"

fun dict_get :: "'v pydict \<Rightarrow> pyval \<Rightarrow> 'v option" where
  "dict_get [] k = None"
| "dict_get ((k', v) # d) k = (if py_eq k' k then Some v else dict_get d k)"

fun dict_set :: "'v pydict \<Rightarrow> pyval \<Rightarrow> 'v \<Rightarrow> 'v pydict" where
  "dict_set [] k v = [(k, v)]"
| "dict_set ((k', v') # d) k v =
     (if py_eq k' k then (k', v) # d else (k', v') # dict_set d k v)"

text \<open>\<^verbatim>\<open>d.get(key, default)\<close> with a string key.\<close>

definition dget :: "'v pydict \<Rightarrow> pystr \<Rightarrow> 'v \<Rightarrow> 'v" where
  "dget d key dflt = (case dict_get d (PStr key) of Some v \<Rightarrow> v | None \<Rightarrow> dflt)"

text \<open>\<^verbatim>\<open>d[k] = v\<close>.\<close>

definition store :: "'v pydict \<Rightarrow> pyval \<Rightarrow> 'v \<Rightarrow> pyerr + 'v pydict" where
  "store d k v = (if hashable k then Inr (dict_set d k v) else Inl TypeError)"

text \<open>\<^verbatim>\<open>sum([...])\<close> over numbers; a value that is not a number raises \<^verbatim>\<open>TypeError\<close>.\<close>

fun py_sum :: "pyval list \<Rightarrow> pyerr + real" where
  "py_sum [] = Inr 0"
| "py_sum (v # vs) =
     (case num_of v of
        None \<Rightarrow> Inl TypeError
      | Some x \<Rightarrow> (case py_sum vs of Inl e \<Rightarrow> Inl e | Inr t \<Rightarrow> Inr (x + t)))"

text \<open>A \<^verbatim>\<open>for\<close> loop whose body may raise: the first exception leaves the loop.\<close>

fun for_each :: "('a \<Rightarrow> 's \<Rightarrow> pyerr + 's) \<Rightarrow> 'a list \<Rightarrow> 's \<Rightarrow> pyerr + 's" where
  "for_each body [] s = Inr s"
| "for_each body (x # xs) s =
     (case body x s of Inl e \<Rightarrow> Inl e | Inr s' \<Rightarrow> for_each body xs s')"

subsection \<open>Numbers\<close>

text \<open>\<^verbatim>\<open>int(x)\<close> of a float truncates towards zero.\<close>

definition py_int :: "real \<Rightarrow> int" where
  "py_int x = (if 0 \<le> x then \<lfloor>x\<rfloor> else \<lceil>x\<rceil>)"

text \<open>\<^verbatim>\<open>round(x)\<close> rounds to the nearest integer, a tie to the even one;
  \<^verbatim>\<open>round(x, n)\<close> does so at the \<open>n\<close>-th decimal.\<close>

definition round_half_even :: "real \<Rightarrow> int" where
  "round_half_even x =
     (let f = \<lfloor>x\<rfloor>; d = x - of_int f
      in if d < 1 / 2 then f else if 1 / 2 < d then f + 1 else if even f then f else f + 1)"

definition py_round :: "real \<Rightarrow> nat \<Rightarrow> real" where
  "py_round x n = of_int (round_half_even (x * 10 ^ n)) / 10 ^ n"

text \<open>\<^verbatim>\<open>round(v, 1)\<close> of a number: an \<^verbatim>\<open>int\<close> stays the \<^verbatim>\<open>int\<close> it is.\<close>

fun py_round1 :: "pyval \<Rightarrow> pyval" where
  "py_round1 (PFloat r) = PFloat (py_round r 1)"
| "py_round1 v = v"

text \<open>\<^verbatim>\<open>min(100, max(0, x))\<close> for a float \<open>x\<close>: \<^verbatim>\<open>max\<close> and \<^verbatim>\<open>min\<close> return their first
  argument unless the second is strictly larger (smaller), so the result is the
  \<^verbatim>\<open>int\<close> 0 or 100 where a bound is taken, and the float otherwise.\<close>

definition clamp_0_100 :: "real \<Rightarrow> pyval" where
  "clamp_0_100 x = (if x \<le> 0 then PInt 0 else if 100 \<le> x then PInt 100 else PFloat x)"

text \<open>The value of a number in arithmetic.\<close>

definition number :: "pyval \<Rightarrow> real" where
  "number v = (case num_of v of Some r \<Rightarrow> r | None \<Rightarrow> 0)"

subsection \<open>Strings\<close>

text \<open>\<^verbatim>\<open>s.encode()\<close> encodes in UTF-8 and raises \<^verbatim>\<open>UnicodeEncodeError\<close> when the string
  holds a surrogate code point (\<^verbatim>\<open>U+D800\<close> to \<^verbatim>\<open>U+DFFF\<close>).\<close>

definition surrogate :: "nat \<Rightarrow> bool" where
  "surrogate c = (0xD800 \<le> c \<and> c \<le> 0xDFFF)"

definition encodable :: "pystr \<Rightarrow> bool" where
  "encodable s = (\<not> list_ex surrogate s)"


section \<open>Library functions\<close>

text \<open>
  The modules call Python's \<^verbatim>\<open>hashlib\<close>, \<^verbatim>\<open>random\<close> and \<^verbatim>\<open>json\<close> and the Google Trends
  client. These are parameters of the model. The type \<open>'g\<close> is the state of the global
  generator of the \<^verbatim>\<open>random\<close> module, which every draw advances.
  \<^item> \<open>hashlib_md5_int k\<close> is \<^verbatim>\<open>int(hashlib.md5(k.encode()).hexdigest(), 16)\<close> for a
    string \<open>k\<close> that can be encoded;
  \<^item> \<open>random_seed n\<close> is the generator state after \<^verbatim>\<open>random.seed(n)\<close>;
  \<^item> \<open>random_uniform a b\<close>, \<open>random_randint a b\<close> are one draw and the next state;
  \<^item> \<open>random_choices population weights\<close> is \<^verbatim>\<open>random.choices(population, weights=weights, k=1)[0]\<close>;
  \<^item> \<open>json_loads s\<close> is the parsed value, \<open>None\<close> when \<^verbatim>\<open>json.loads\<close> raises;
  \<^item> \<open>trendreq_init\<close> is the exception \<^verbatim>\<open>TrendReq(hl='ja-JP', tz=540)\<close> raises, if any;
  \<^item> \<open>interest_over_time group\<close> is the data frame that \<^verbatim>\<open>build_payload\<close> followed by
    \<^verbatim>\<open>interest_over_time\<close> returns for a keyword group, as its numeric columns, or the
    exception one of the two raises.
\<close>

type_synonym frame = "(pyval \<times> real list) list"

record 'g libs =
  hashlib_md5_int :: "pystr \<Rightarrow> nat"
  random_seed :: "nat \<Rightarrow> 'g"
  random_uniform :: "real \<Rightarrow> real \<Rightarrow> 'g \<Rightarrow> real \<times> 'g"
  random_randint :: "int \<Rightarrow> int \<Rightarrow> 'g \<Rightarrow> int \<times> 'g"
  random_choices :: "pystr list \<Rightarrow> real list \<Rightarrow> 'g \<Rightarrow> pystr \<times> 'g"
  json_loads :: "pystr \<Rightarrow> pyval option"
  trendreq_init :: "pyerr option"
  interest_over_time :: "pyval \<Rightarrow> pyerr + frame"

text \<open>What the documentation of \<^verbatim>\<open>random\<close> promises about the range of a draw.\<close>

definition random_ok :: "'g libs \<Rightarrow> bool" where
  "random_ok L =
     ((\<forall>a b g. a \<le> b \<longrightarrow> a \<le> fst (random_uniform L a b g) \<and> fst (random_uniform L a b g) \<le> b) \<and>
      (\<forall>a b g. a \<le> b \<longrightarrow> a \<le> fst (random_randint L a b g) \<and> fst (random_randint L a b g) \<le> b))"

section \<open>String constants of the modules\<close>

definition s_genre_name :: pystr where \<comment> \<open>the key of the genre name\<close>
  "s_genre_name = [0x30B8, 0x30E3, 0x30F3, 0x30EB, 0x540D]"

definition s_keywords :: pystr where \<comment> \<open>the key of the related keyword examples\<close>
  "s_keywords = [0x95A2, 0x9023, 0x3059, 0x308B, 0x30AD, 0x30FC, 0x30EF, 0x30FC, 0x30C9, 0x4F8B]"

definition alias_keys :: "pystr list" where \<comment> \<open>\<^verbatim>\<open>"genres"\<close>, the Japanese word for genre, \<^verbatim>\<open>"results"\<close>, \<^verbatim>\<open>"data"\<close>\<close>
  "alias_keys =
     [[0x67, 0x65, 0x6E, 0x72, 0x65, 0x73], [0x30B8, 0x30E3, 0x30F3, 0x30EB],
      [0x72, 0x65, 0x73, 0x75, 0x6C, 0x74, 0x73], [0x64, 0x61, 0x74, 0x61]]"

definition s_difficulty :: pystr where \<comment> \<open>"difficulty", the key the mock and the providers use\<close>
  "s_difficulty = [0x96E3, 0x6613, 0x5EA6]"

definition s_keyword_difficulty :: pystr where \<comment> \<open>"keyword difficulty", the key of a stored entry\<close>
  "s_keyword_difficulty = [0x30AD, 0x30FC, 0x30EF, 0x30FC, 0x30C9, 0x96E3, 0x6613, 0x5EA6]"

definition s_competitors :: pystr where \<comment> \<open>"number of competing sites"\<close>
  "s_competitors = [0x7AF6, 0x5408, 0x30B5, 0x30A4, 0x30C8, 0x6570]"

definition s_data_source :: pystr where \<comment> \<open>"data source"\<close>
  "s_data_source = [0x30C7, 0x30FC, 0x30BF, 0x30BD, 0x30FC, 0x30B9]"

definition s_mock_data :: pystr where \<comment> \<open>"mock data"\<close>
  "s_mock_data = [0x30E2, 0x30C3, 0x30AF, 0x30C7, 0x30FC, 0x30BF]"

definition s_Semrush :: pystr where
  "s_Semrush = [0x53, 0x65, 0x6D, 0x72, 0x75, 0x73, 0x68]"

definition s_Ubersuggest :: pystr where
  "s_Ubersuggest = [0x55, 0x62, 0x65, 0x72, 0x73, 0x75, 0x67, 0x67, 0x65, 0x73, 0x74]"

definition common_keywords :: "pystr list" where \<comment> \<open>the five markers of a contested keyword\<close>
  "common_keywords =
     [[0x65B9, 0x6CD5], [0x3084, 0x308A, 0x65B9], [0x304A, 0x3059, 0x3059, 0x3081],
      [0x30E9, 0x30F3, 0x30AD, 0x30F3, 0x30B0], [0x6BD4, 0x8F03]]"

section \<open>competition\_analysis.py\<close>

text \<open>\<^verbatim>\<open>word in keyword\<close> on strings: \<open>word\<close> occurs in \<open>keyword\<close> as a contiguous run.\<close>

fun starts_with :: "pystr \<Rightarrow> pystr \<Rightarrow> bool" where
  "starts_with [] ys = True"
| "starts_with (x # xs) [] = False"
| "starts_with (x # xs) (y # ys) = (x = y \<and> starts_with xs ys)"

fun str_contains :: "pystr \<Rightarrow> pystr \<Rightarrow> bool" where
  "str_contains word [] = (word = [])"
| "str_contains word (c # cs) = (starts_with word (c # cs) \<or> str_contains word cs)"

type_synonym metric = "pyval pydict"

text \<open>\<^verbatim>\<open>mock_competition_data(keyword)\<close>. The first statement encodes the keyword: a
  keyword that is not a string has no \<^verbatim>\<open>encode\<close> and raises \<^verbatim>\<open>AttributeError\<close>, a string
  with a surrogate raises \<^verbatim>\<open>UnicodeEncodeError\<close>; the generator is not touched then.\<close>

definition mock_competition_data :: "'g libs \<Rightarrow> pyval \<Rightarrow> 'g \<Rightarrow> (pyerr + metric) \<times> 'g" where
  "mock_competition_data L keyword g =
     (case keyword of
        PStr k \<Rightarrow>
          if \<not> encodable k then (Inl UnicodeEncodeError, g)
          else
            (let hash_int = hashlib_md5_int L k;
                 g0 = random_seed L hash_int;
                 (base_difficulty, g1) = random_uniform L 0 100 g0;
                 length_factor = real (length k) / 10;
                 common_factor = real (length (filter (\<lambda>word. str_contains word k) common_keywords)) * 10;
                 difficulty = clamp_0_100 (base_difficulty + common_factor - length_factor);
                 (u, g2) = random_uniform L 0 10000 g1;
                 competitors = py_int (number difficulty * 1000 + u)
             in (Inr [(PStr s_difficulty, py_round1 difficulty),
                      (PStr s_competitors, PInt competitors),
                      (PStr s_data_source, PStr s_mock_data)], g2))
      | _ \<Rightarrow> (Inl AttributeError, g))"

text \<open>The two provider stubs return the mock data.\<close>

definition get_semrush_data :: "'g libs \<Rightarrow> pyval \<Rightarrow> pystr \<Rightarrow> 'g \<Rightarrow> (pyerr + metric) \<times> 'g" where
  "get_semrush_data L keyword api_key g = mock_competition_data L keyword g"

definition get_ubersuggest_data :: "'g libs \<Rightarrow> pyval \<Rightarrow> pystr \<Rightarrow> 'g \<Rightarrow> (pyerr + metric) \<times> 'g" where
  "get_ubersuggest_data L keyword api_key g = mock_competition_data L keyword g"

text \<open>An API key is an optional string; \<^verbatim>\<open>if api_key:\<close> holds for a non-empty one.\<close>

definition key_given :: "pystr option \<Rightarrow> bool" where
  "key_given k = (case k of None \<Rightarrow> False | Some s \<Rightarrow> s \<noteq> [])"

text \<open>The entry \<^verbatim>\<open>analyze_competition\<close> stores for a keyword a provider answered.\<close>

definition provider_entry :: "metric \<Rightarrow> pystr \<Rightarrow> metric" where
  "provider_entry data source =
     [(PStr s_keyword_difficulty, dget data s_difficulty (PInt 0)),
      (PStr s_competitors, dget data s_competitors (PInt 0)),
      (PStr s_data_source, PStr source)]"

text \<open>
  One round of the loop of \<^verbatim>\<open>analyze_competition\<close>, for any two provider functions. The
  \<^verbatim>\<open>try\<close> block attempts the provider (or the mock data when no key is given) and stores
  the entry; \<^verbatim>\<open>except Exception\<close> stores the mock data instead, and an exception raised
  there leaves the function.
\<close>

type_synonym 'g provider = "pyval \<Rightarrow> pystr \<Rightarrow> 'g \<Rightarrow> (pyerr + metric) \<times> 'g"

definition competition_try ::
  "'g libs \<Rightarrow> 'g provider \<Rightarrow> 'g provider \<Rightarrow> pystr option \<Rightarrow> pystr option \<Rightarrow>
   pyval \<Rightarrow> metric pydict \<Rightarrow> 'g \<Rightarrow> (pyerr + metric pydict) \<times> 'g" where
  "competition_try L semrush ubersuggest semrush_api_key ubersuggest_api_key keyword results g =
     (if key_given semrush_api_key then
        (case semrush keyword (the semrush_api_key) g of
           (Inl e, g') \<Rightarrow> (Inl e, g')
         | (Inr data, g') \<Rightarrow> (store results keyword (provider_entry data s_Semrush), g'))
      else if key_given ubersuggest_api_key then
        (case ubersuggest keyword (the ubersuggest_api_key) g of
           (Inl e, g') \<Rightarrow> (Inl e, g')
         | (Inr data, g') \<Rightarrow> (store results keyword (provider_entry data s_Ubersuggest), g'))
      else
        (case mock_competition_data L keyword g of
           (Inl e, g') \<Rightarrow> (Inl e, g')
         | (Inr data, g') \<Rightarrow> (store results keyword data, g')))"

definition competition_keyword ::
  "'g libs \<Rightarrow> 'g provider \<Rightarrow> 'g provider \<Rightarrow> pystr option \<Rightarrow> pystr option \<Rightarrow>
   pyval \<Rightarrow> metric pydict \<times> 'g \<Rightarrow> pyerr + metric pydict \<times> 'g" where
  "competition_keyword L semrush ubersuggest semrush_api_key ubersuggest_api_key keyword s =
     (case competition_try L semrush ubersuggest semrush_api_key ubersuggest_api_key
             keyword (fst s) (snd s) of
        (Inr results, g') \<Rightarrow> Inr (results, g')
      | (Inl e, g') \<Rightarrow>
          (case mock_competition_data L keyword g' of
             (Inl e', g'') \<Rightarrow> Inl e'
           | (Inr data, g'') \<Rightarrow>
               (case store (fst s) keyword data of
                  Inl e' \<Rightarrow> Inl e'
                | Inr results \<Rightarrow> Inr (results, g''))))"

definition analyze_competition_with ::
  "'g libs \<Rightarrow> 'g provider \<Rightarrow> 'g provider \<Rightarrow> pyval \<Rightarrow> pystr option \<Rightarrow> pystr option \<Rightarrow>
   'g \<Rightarrow> pyerr + metric pydict \<times> 'g" where
  "analyze_competition_with L semrush ubersuggest keywords semrush_api_key ubersuggest_api_key g =
     (case py_iter keywords of
        Inl e \<Rightarrow> Inl e
      | Inr ks \<Rightarrow>
          for_each (competition_keyword L semrush ubersuggest semrush_api_key ubersuggest_api_key)
            ks ([], g))"

text \<open>\<^verbatim>\<open>analyze_competition\<close> as the module has it, with its two stubs.\<close>

definition analyze_competition ::
  "'g libs \<Rightarrow> pyval \<Rightarrow> pystr option \<Rightarrow> pystr option \<Rightarrow> 'g \<Rightarrow> pyerr + metric pydict \<times> 'g" where
  "analyze_competition L =
     analyze_competition_with L (get_semrush_data L) (get_ubersuggest_data L)"


subsection \<open>The genre payload\<close>

text \<open>
  Each of \<^verbatim>\<open>analyze_demand\<close>, \<^verbatim>\<open>analyze_genre_competition\<close> and \<^verbatim>\<open>analyze_genre_social\<close>
  opens with the same statements, which bring the payload into the shape of a list:
  a string is parsed as JSON, a dict is searched for a list under one of four keys and is
  otherwise taken as a single genre. \<open>coerce_genres\<close> is \<open>None\<close> where these statements
  return the empty mapping (the parse failed, or the value is a number or a string).
\<close>

definition is_list :: "pyval \<Rightarrow> bool" where
  "is_list v = (case v of PList xs \<Rightarrow> True | _ \<Rightarrow> False)"

fun find_alias :: "pyval pydict \<Rightarrow> pystr list \<Rightarrow> pyval option" where
  "find_alias d [] = None"
| "find_alias d (key # keys) =
     (case dict_get d (PStr key) of
        Some (PList xs) \<Rightarrow> Some (PList xs)
      | _ \<Rightarrow> find_alias d keys)"

definition from_dict :: "pyval \<Rightarrow> pyval" where
  "from_dict v =
     (case v of
        PDict d \<Rightarrow> (case find_alias d alias_keys of Some xs \<Rightarrow> xs | None \<Rightarrow> PList [PDict d])
      | _ \<Rightarrow> v)"

definition coerce_genres :: "'g libs \<Rightarrow> pyval \<Rightarrow> pyval option" where
  "coerce_genres L genres =
     (case (if is_list genres then Some genres
            else (case (case genres of PStr s \<Rightarrow> json_loads L s | _ \<Rightarrow> Some genres) of
                    None \<Rightarrow> None
                  | Some v \<Rightarrow> Some (from_dict v))) of
        None \<Rightarrow> None
      | Some v \<Rightarrow> if is_scalar v then None else Some v)"

text \<open>
  The head of the loop body, also shared: the name and the keywords of an entry. A dict
  gives its two fields (defaults \<^verbatim>\<open>""\<close> and \<^verbatim>\<open>[]\<close>), a string is its own name and only
  keyword, any other entry is skipped (\<open>None\<close>).
\<close>

definition genre_fields :: "pyval \<Rightarrow> (pyval \<times> pyval) option" where
  "genre_fields genre =
     (case genre of
        PDict d \<Rightarrow> Some (dget d s_genre_name (PStr []), dget d s_keywords (PList []))
      | PStr s \<Rightarrow> Some (PStr s, PList [PStr s])
      | _ \<Rightarrow> None)"

text \<open>The entries the two \<^verbatim>\<open>continue\<close> statements let through.\<close>

definition selected :: "pyval \<Rightarrow> (pyval \<times> pyval) option" where
  "selected genre =
     (case genre_fields genre of
        None \<Rightarrow> None
      | Some (genre_name, keywords) \<Rightarrow>
          if \<not> truthy genre_name then None
          else if \<not> truthy keywords then None
          else Some (genre_name, keywords))"

subsection \<open>analyze\_genre\_competition\<close>

record competition_result =
  competition_genre_name :: pyval
  keyword_competition :: "metric pydict"
  ease_score :: real

text \<open>\<^verbatim>\<open>sum([...]) / len(d) if d else 0\<close> over the entries of a dict.\<close>

definition average_of :: "(metric \<Rightarrow> pyval) \<Rightarrow> metric pydict \<Rightarrow> pyerr + real" where
  "average_of f d =
     (if d \<noteq> [] then
        (case py_sum (map (\<lambda>kv. f (snd kv)) d) of
           Inl e \<Rightarrow> Inl e
         | Inr t \<Rightarrow> Inr (t / real (length d)))
      else Inr 0)"

definition competition_genre ::
  "'g libs \<Rightarrow> pystr option \<Rightarrow> pystr option \<Rightarrow> pyval \<Rightarrow>
   competition_result pydict \<times> 'g \<Rightarrow> pyerr + competition_result pydict \<times> 'g" where
  "competition_genre L semrush_api_key ubersuggest_api_key genre s =
     (case selected genre of
        None \<Rightarrow> Inr s
      | Some (genre_name, keywords) \<Rightarrow>
          (case analyze_competition L keywords semrush_api_key ubersuggest_api_key (snd s) of
             Inl e \<Rightarrow> Inl e
           | Inr (competition_data, g') \<Rightarrow>
               (case average_of (\<lambda>data. dget data s_keyword_difficulty (PInt 0)) competition_data of
                  Inl e \<Rightarrow> Inl e
                | Inr avg_difficulty \<Rightarrow>
                    (case store (fst s) genre_name
                            \<lparr>competition_genre_name = genre_name,
                             keyword_competition = competition_data,
                             ease_score = 100 - avg_difficulty\<rparr> of
                       Inl e \<Rightarrow> Inl e
                     | Inr all_results \<Rightarrow> Inr (all_results, g')))))"

definition analyze_genre_competition ::
  "'g libs \<Rightarrow> pyval \<Rightarrow> pystr option \<Rightarrow> pystr option \<Rightarrow> 'g \<Rightarrow>
   pyerr + competition_result pydict \<times> 'g" where
  "analyze_genre_competition L genres semrush_api_key ubersuggest_api_key g =
     (case coerce_genres L genres of
        None \<Rightarrow> Inr ([], g)
      | Some gs \<Rightarrow>
          (case py_iter gs of
             Inl e \<Rightarrow> Inl e
           | Inr entries \<Rightarrow>
               for_each (competition_genre L semrush_api_key ubersuggest_api_key) entries ([], g)))"

section \<open>social\_analysis.py\<close>

definition s_tweet_count :: pystr where \<comment> \<open>"total number of tweets"\<close>
  "s_tweet_count = [0x7DCF, 0x30C4, 0x30A4, 0x30FC, 0x30C8, 0x6570]"

definition s_engagement_rate :: pystr where \<comment> \<open>"average engagement rate"\<close>
  "s_engagement_rate =
     [0x5E73, 0x5747, 0x30A8, 0x30F3, 0x30B2, 0x30FC, 0x30B8, 0x30E1, 0x30F3, 0x30C8, 0x7387]"

definition s_sentiment :: pystr where \<comment> \<open>"sentiment"\<close>
  "s_sentiment = [0x611F, 0x60C5, 0x50BE, 0x5411]"

definition s_Twitter_API :: pystr where
  "s_Twitter_API = [0x54, 0x77, 0x69, 0x74, 0x74, 0x65, 0x72, 0x20, 0x41, 0x50, 0x49]"

definition s_positive :: pystr where
  "s_positive = [0x30DD, 0x30B8, 0x30C6, 0x30A3, 0x30D6]"

definition s_rather_positive :: pystr where
  "s_rather_positive = [0x3084, 0x3084, 0x80AF, 0x5B9A, 0x7684]"

definition s_neutral :: pystr where
  "s_neutral = [0x4E2D, 0x7ACB]"

definition s_rather_negative :: pystr where
  "s_rather_negative = [0x3084, 0x3084, 0x5426, 0x5B9A, 0x7684]"

definition s_negative :: pystr where
  "s_negative = [0x30CD, 0x30AC, 0x30C6, 0x30A3, 0x30D6]"

definition common_topics :: "pystr list" where \<comment> \<open>food, travel, anime, games, health, sport\<close>
  "common_topics =
     [[0x98DF, 0x3079, 0x7269], [0x65C5, 0x884C], [0x30A2, 0x30CB, 0x30E1],
      [0x30B2, 0x30FC, 0x30E0], [0x5065, 0x5EB7], [0x30B9, 0x30DD, 0x30FC, 0x30C4]]"

definition sentiment_options :: "pystr list" where
  "sentiment_options = [s_positive, s_rather_positive, s_neutral, s_rather_negative, s_negative]"

definition sentiment_weights :: "real list" where
  "sentiment_weights = [2 / 10, 3 / 10, 3 / 10, 15 / 100, 5 / 100]"

text \<open>\<^verbatim>\<open>mock_twitter_data(keyword)\<close>; its first statement encodes the keyword, as in the
  competition module.\<close>

definition mock_twitter_data :: "'g libs \<Rightarrow> pyval \<Rightarrow> 'g \<Rightarrow> (pyerr + metric) \<times> 'g" where
  "mock_twitter_data L keyword g =
     (case keyword of
        PStr k \<Rightarrow>
          if \<not> encodable k then (Inl UnicodeEncodeError, g)
          else
            (let hash_int = hashlib_md5_int L k;
                 g0 = random_seed L hash_int;
                 (base_tweets, g1) = random_randint L 50 5000 g0;
                 topic_factor = list_ex (\<lambda>topic. str_contains topic k) common_topics;
                 tweet_count = base_tweets * (if topic_factor then 3 else 1);
                 (engagement_rate, g2) = random_uniform L (5 / 10) 10 g1;
                 (sentiment, g3) = random_choices L sentiment_options sentiment_weights g2
             in (Inr [(PStr s_tweet_count, PInt tweet_count),
                      (PStr s_engagement_rate, PFloat (py_round engagement_rate 2)),
                      (PStr s_sentiment, PStr sentiment),
                      (PStr s_data_source, PStr s_mock_data)], g3))
      | _ \<Rightarrow> (Inl AttributeError, g))"

text \<open>The provider stub builds a header and a query it does not send, and returns the
  mock data.\<close>

definition get_twitter_data :: "'g libs \<Rightarrow> pyval \<Rightarrow> pystr \<Rightarrow> 'g \<Rightarrow> (pyerr + metric) \<times> 'g" where
  "get_twitter_data L keyword bearer_token g = mock_twitter_data L keyword g"

definition twitter_entry :: "metric \<Rightarrow> metric" where
  "twitter_entry data =
     [(PStr s_tweet_count, dget data s_tweet_count (PInt 0)),
      (PStr s_engagement_rate, dget data s_engagement_rate (PInt 0)),
      (PStr s_sentiment, dget data s_sentiment (PStr s_neutral)),
      (PStr s_data_source, PStr s_Twitter_API)]"

definition twitter_try ::
  "'g libs \<Rightarrow> 'g provider \<Rightarrow> pystr option \<Rightarrow> pyval \<Rightarrow> metric pydict \<Rightarrow> 'g \<Rightarrow>
   (pyerr + metric pydict) \<times> 'g" where
  "twitter_try L twitter twitter_bearer_token keyword results g =
     (if key_given twitter_bearer_token then
        (case twitter keyword (the twitter_bearer_token) g of
           (Inl e, g') \<Rightarrow> (Inl e, g')
         | (Inr data, g') \<Rightarrow> (store results keyword (twitter_entry data), g'))
      else
        (case mock_twitter_data L keyword g of
           (Inl e, g') \<Rightarrow> (Inl e, g')
         | (Inr data, g') \<Rightarrow> (store results keyword data, g')))"

definition twitter_keyword ::
  "'g libs \<Rightarrow> 'g provider \<Rightarrow> pystr option \<Rightarrow> pyval \<Rightarrow> metric pydict \<times> 'g \<Rightarrow>
   pyerr + metric pydict \<times> 'g" where
  "twitter_keyword L twitter twitter_bearer_token keyword s =
     (case twitter_try L twitter twitter_bearer_token keyword (fst s) (snd s) of
        (Inr results, g') \<Rightarrow> Inr (results, g')
      | (Inl e, g') \<Rightarrow>
          (case mock_twitter_data L keyword g' of
             (Inl e', g'') \<Rightarrow> Inl e'
           | (Inr data, g'') \<Rightarrow>
               (case store (fst s) keyword data of
                  Inl e' \<Rightarrow> Inl e'
                | Inr results \<Rightarrow> Inr (results, g''))))"

definition analyze_twitter_engagement_with ::
  "'g libs \<Rightarrow> 'g provider \<Rightarrow> pyval \<Rightarrow> pystr option \<Rightarrow> 'g \<Rightarrow> pyerr + metric pydict \<times> 'g" where
  "analyze_twitter_engagement_with L twitter keywords twitter_bearer_token g =
     (case py_iter keywords of
        Inl e \<Rightarrow> Inl e
      | Inr ks \<Rightarrow> for_each (twitter_keyword L twitter twitter_bearer_token) ks ([], g))"

definition analyze_twitter_engagement ::
  "'g libs \<Rightarrow> pyval \<Rightarrow> pystr option \<Rightarrow> 'g \<Rightarrow> pyerr + metric pydict \<times> 'g" where
  "analyze_twitter_engagement L = analyze_twitter_engagement_with L (get_twitter_data L)"

record social_result =
  social_genre_name :: pyval
  sns_analysis :: "metric pydict"
  sns_score :: real

text \<open>\<^verbatim>\<open>sentiment_map.get(x, 0)\<close>; a key that is not hashable raises \<^verbatim>\<open>TypeError\<close>.\<close>

definition sentiment_map_get :: "pyval \<Rightarrow> pyerr + real" where
  "sentiment_map_get v =
     (if \<not> hashable v then Inl TypeError
      else Inr (case v of
                  PStr s \<Rightarrow>
                    (if s = s_positive then 1
                     else if s = s_rather_positive then 5 / 10
                     else if s = s_neutral then 0
                     else if s = s_rather_negative then - (5 / 10)
                     else if s = s_negative then - 1
                     else 0)
                | _ \<Rightarrow> 0))"

fun sum_sentiment :: "pyval list \<Rightarrow> pyerr + real" where
  "sum_sentiment [] = Inr 0"
| "sum_sentiment (v # vs) =
     (case sentiment_map_get v of
        Inl e \<Rightarrow> Inl e
      | Inr x \<Rightarrow> (case sum_sentiment vs of Inl e \<Rightarrow> Inl e | Inr t \<Rightarrow> Inr (x + t)))"

definition average_sentiment :: "metric pydict \<Rightarrow> pyerr + real" where
  "average_sentiment d =
     (if d \<noteq> [] then
        (case sum_sentiment (map (\<lambda>kv. dget (snd kv) s_sentiment (PStr s_neutral)) d) of
           Inl e \<Rightarrow> Inl e
         | Inr t \<Rightarrow> Inr (t / real (length d)))
      else Inr 0)"

definition sns_score_of :: "real \<Rightarrow> real \<Rightarrow> real \<Rightarrow> real" where
  "sns_score_of avg_tweet_count avg_engagement avg_sentiment =
     (let tweet_count_score = min 100 (avg_tweet_count / 50);
          engagement_score = min 100 (avg_engagement * 10);
          sentiment_score = (avg_sentiment + 1) * 50
      in tweet_count_score * (3 / 10) + engagement_score * (5 / 10) + sentiment_score * (2 / 10))"

definition social_genre ::
  "'g libs \<Rightarrow> pystr option \<Rightarrow> pyval \<Rightarrow> social_result pydict \<times> 'g \<Rightarrow>
   pyerr + social_result pydict \<times> 'g" where
  "social_genre L twitter_bearer_token genre s =
     (case selected genre of
        None \<Rightarrow> Inr s
      | Some (genre_name, keywords) \<Rightarrow>
          (case analyze_twitter_engagement L keywords twitter_bearer_token (snd s) of
             Inl e \<Rightarrow> Inl e
           | Inr (twitter_data, g') \<Rightarrow>
               (case average_of (\<lambda>data. dget data s_tweet_count (PInt 0)) twitter_data of
                  Inl e \<Rightarrow> Inl e
                | Inr avg_tweet_count \<Rightarrow>
                    (case average_of (\<lambda>data. dget data s_engagement_rate (PInt 0)) twitter_data of
                       Inl e \<Rightarrow> Inl e
                     | Inr avg_engagement \<Rightarrow>
                         (case average_sentiment twitter_data of
                            Inl e \<Rightarrow> Inl e
                          | Inr avg_sentiment \<Rightarrow>
                              (case store (fst s) genre_name
                                      \<lparr>social_genre_name = genre_name,
                                       sns_analysis = twitter_data,
                                       sns_score = sns_score_of avg_tweet_count avg_engagement avg_sentiment\<rparr> of
                                 Inl e \<Rightarrow> Inl e
                               | Inr all_results \<Rightarrow> Inr (all_results, g')))))))"

definition analyze_genre_social ::
  "'g libs \<Rightarrow> pyval \<Rightarrow> pystr option \<Rightarrow> 'g \<Rightarrow> pyerr + social_result pydict \<times> 'g" where
  "analyze_genre_social L genres twitter_bearer_token g =
     (case coerce_genres L genres of
        None \<Rightarrow> Inr ([], g)
      | Some gs \<Rightarrow>
          (case py_iter gs of
             Inl e \<Rightarrow> Inl e
           | Inr entries \<Rightarrow> for_each (social_genre L twitter_bearer_token) entries ([], g)))"


section \<open>demand\_analysis.py\<close>

definition s_rising :: pystr where
  "s_rising = [0x4E0A, 0x6607]"

definition s_falling :: pystr where
  "s_falling = [0x4E0B, 0x964D]"

definition s_unknown :: pystr where
  "s_unknown = [0x4E0D, 0x660E]"

text \<open>The entry of a keyword in the result of \<^verbatim>\<open>analyze_trends\<close>: the average interest
  and the trend.\<close>

record trend_info =
  average_interest :: real
  trend :: pystr

text \<open>\<^verbatim>\<open>[keywords[i:i+5] for i in range(0, len(keywords), 5)]\<close>: a list is cut into lists
  of five, a string into strings of five characters; a number has no length and a
  non-empty dict cannot be sliced.\<close>

fun chunks5 :: "'a list \<Rightarrow> 'a list list" where
  "chunks5 [] = []"
| "chunks5 (x # xs) = take 5 (x # xs) # chunks5 (drop 4 xs)"

fun keyword_groups :: "pyval \<Rightarrow> pyerr + pyval list" where
  "keyword_groups (PList xs) = Inr (map PList (chunks5 xs))"
| "keyword_groups (PStr s) = Inr (map PStr (chunks5 s))"
| "keyword_groups (PDict d) = (if d = [] then Inr [] else Inl TypeError)"
| "keyword_groups v = Inl TypeError"

text \<open>\<^verbatim>\<open>interest_over_time.empty\<close>: the frame has no column or no row (the columns of a
  data frame have the same length).\<close>

definition frame_empty :: "frame \<Rightarrow> bool" where
  "frame_empty f = (f = [] \<or> list_ex (\<lambda>c. snd c = []) f)"

definition mean :: "real list \<Rightarrow> real" where
  "mean vs = sum_list vs / real (length vs)"

definition trend_of :: "real list \<Rightarrow> trend_info" where
  "trend_of vals =
     \<lparr>average_interest = mean vals,
      trend =
        (if 1 < length vals then
           (let first_half = mean (take (length vals div 2) vals);
                second_half = mean (drop (length vals div 2) vals)
            in if first_half < second_half then s_rising else s_falling)
         else s_unknown)\<rparr>"

text \<open>The loop over the keywords of one group. \<^verbatim>\<open>keyword in interest_over_time.columns\<close>
  hashes the keyword: one that is not hashable raises \<^verbatim>\<open>TypeError\<close>, which the
  \<^verbatim>\<open>except\<close> of the group catches, so the rest of the group is left out.\<close>

fun trends_keywords :: "frame \<Rightarrow> pyval list \<Rightarrow> trend_info pydict \<Rightarrow> trend_info pydict" where
  "trends_keywords iot [] result = result"
| "trends_keywords iot (keyword # ks) result =
     (if \<not> hashable keyword then result
      else (case dict_get iot keyword of
              None \<Rightarrow> trends_keywords iot ks result
            | Some vals \<Rightarrow> trends_keywords iot ks (dict_set result keyword (trend_of vals))))"

definition trends_group :: "'g libs \<Rightarrow> pyval \<Rightarrow> trend_info pydict \<Rightarrow> trend_info pydict" where
  "trends_group L kw_group result =
     (case interest_over_time L kw_group of
        Inl e \<Rightarrow> result
      | Inr iot \<Rightarrow>
          if frame_empty iot then result
          else (case py_iter kw_group of
                  Inl e \<Rightarrow> result
                | Inr ks \<Rightarrow> trends_keywords iot ks result))"

definition analyze_trends :: "'g libs \<Rightarrow> pyval \<Rightarrow> pyerr + trend_info pydict" where
  "analyze_trends L keywords =
     (case trendreq_init L of
        Some e \<Rightarrow> Inl e
      | None \<Rightarrow>
          (case keyword_groups keywords of
             Inl e \<Rightarrow> Inl e
           | Inr groups \<Rightarrow> Inr (fold (trends_group L) groups [])))"

text \<open>\<^verbatim>\<open>mock_search_volume(keyword)\<close> draws from the global generator as it stands.\<close>

definition mock_search_volume :: "'g libs \<Rightarrow> pyval \<Rightarrow> 'g \<Rightarrow> int \<times> 'g" where
  "mock_search_volume L keyword g = random_randint L 500 10000 g"

text \<open>One round of the loop of \<^verbatim>\<open>get_search_volume\<close>; storing under a keyword that is
  not hashable raises inside the \<^verbatim>\<open>try\<close>, and the keyword gets no entry.\<close>

definition search_volume_keyword :: "'g libs \<Rightarrow> pyval \<Rightarrow> int pydict \<times> 'g \<Rightarrow> int pydict \<times> 'g" where
  "search_volume_keyword L keyword s =
     (let (volume, g') = mock_search_volume L keyword (snd s)
      in (case store (fst s) keyword volume of
            Inl e \<Rightarrow> (fst s, g')
          | Inr result \<Rightarrow> (result, g')))"

definition get_search_volume ::
  "'g libs \<Rightarrow> pyval \<Rightarrow> pystr \<Rightarrow> 'g \<Rightarrow> pyerr + int pydict \<times> 'g" where
  "get_search_volume L keywords api_key g =
     (case py_iter keywords of
        Inl e \<Rightarrow> Inl e
      | Inr ks \<Rightarrow> Inr (fold (search_volume_keyword L) ks ([], g)))"

record keyword_result =
  trend_information :: trend_info
  monthly_search_volume :: int

record demand_result =
  demand_genre_name :: pyval
  keyword_analysis :: "keyword_result pydict"
  demand_score :: real

text \<open>\<^verbatim>\<open>d.get(keyword, default)\<close> with the keyword as key; the key is hashed first.\<close>

definition get_or :: "'v pydict \<Rightarrow> pyval \<Rightarrow> 'v \<Rightarrow> pyerr + 'v" where
  "get_or d k dflt =
     (if \<not> hashable k then Inl TypeError
      else Inr (case dict_get d k of Some v \<Rightarrow> v | None \<Rightarrow> dflt))"

definition keyword_result_of ::
  "trend_info pydict \<Rightarrow> int pydict \<Rightarrow> pyval \<Rightarrow> keyword_result pydict \<Rightarrow>
   pyerr + keyword_result pydict" where
  "keyword_result_of trends_data search_volume keyword analysis =
     (case get_or trends_data keyword \<lparr>average_interest = 0, trend = s_unknown\<rparr> of
        Inl e \<Rightarrow> Inl e
      | Inr info \<Rightarrow>
          (case get_or search_volume keyword 0 of
             Inl e \<Rightarrow> Inl e
           | Inr volume \<Rightarrow>
               store analysis keyword
                 \<lparr>trend_information = info, monthly_search_volume = volume\<rparr>))"

text \<open>The three averages of the genre score, each over the keywords as iterated and
  divided by \<^verbatim>\<open>len(keywords)\<close>. The loop before them has looked every keyword up, so
  every keyword is hashable here.\<close>

definition interest_of :: "trend_info pydict \<Rightarrow> pyval \<Rightarrow> real" where
  "interest_of trends_data k =
     (case dict_get trends_data k of Some info \<Rightarrow> average_interest info | None \<Rightarrow> 0)"

definition volume_of :: "int pydict \<Rightarrow> pyval \<Rightarrow> real" where
  "volume_of search_volume k =
     (case dict_get search_volume k of Some v \<Rightarrow> real_of_int v | None \<Rightarrow> 0)"

definition is_rising :: "trend_info pydict \<Rightarrow> pyval \<Rightarrow> bool" where
  "is_rising trends_data k =
     (case dict_get trends_data k of Some info \<Rightarrow> trend info = s_rising | None \<Rightarrow> False)"

definition demand_score_of :: "trend_info pydict \<Rightarrow> int pydict \<Rightarrow> pyval list \<Rightarrow> real" where
  "demand_score_of trends_data search_volume ks =
     (let avg_interest = sum_list (map (interest_of trends_data) ks) / real (length ks);
          avg_volume = sum_list (map (volume_of search_volume) ks) / real (length ks);
          trend_score = real (length (filter (is_rising trends_data) ks)) / real (length ks)
      in avg_interest * (3 / 10) + avg_volume * (5 / 10) + trend_score * 100 * (2 / 10))"

definition demand_genre ::
  "'g libs \<Rightarrow> pystr \<Rightarrow> pyval \<Rightarrow> demand_result pydict \<times> 'g \<Rightarrow>
   pyerr + demand_result pydict \<times> 'g" where
  "demand_genre L google_api_key genre s =
     (case selected genre of
        None \<Rightarrow> Inr s
      | Some (genre_name, keywords) \<Rightarrow>
          (case analyze_trends L keywords of
             Inl e \<Rightarrow> Inl e
           | Inr trends_data \<Rightarrow>
               (case get_search_volume L keywords google_api_key (snd s) of
                  Inl e \<Rightarrow> Inl e
                | Inr (search_volume, g') \<Rightarrow>
                    (case py_iter keywords of
                       Inl e \<Rightarrow> Inl e
                     | Inr ks \<Rightarrow>
                         (case for_each (keyword_result_of trends_data search_volume) ks [] of
                            Inl e \<Rightarrow> Inl e
                          | Inr analysis \<Rightarrow>
                              (case store (fst s) genre_name
                                      \<lparr>demand_genre_name = genre_name,
                                       keyword_analysis = analysis,
                                       demand_score = demand_score_of trends_data search_volume ks\<rparr> of
                                 Inl e \<Rightarrow> Inl e
                               | Inr all_results \<Rightarrow> Inr (all_results, g')))))))"

definition analyze_demand ::
  "'g libs \<Rightarrow> pyval \<Rightarrow> pystr \<Rightarrow> 'g \<Rightarrow> pyerr + demand_result pydict \<times> 'g" where
  "analyze_demand L genres google_api_key g =
     (case coerce_genres L genres of
        None \<Rightarrow> Inr ([], g)
      | Some gs \<Rightarrow>
          (case py_iter gs of
             Inl e \<Rightarrow> Inl e
           | Inr entries \<Rightarrow> for_each (demand_genre L google_api_key) entries ([], g)))"

section \<open>dashboard.py\<close>

text \<open>The part of the session state the scores are computed from, and the scores.
  An analyzer stores the score with every genre, so a genre that is in a mapping has one;
  a genre that is not in a mapping counts as 0.\<close>

record final_score =
  total_score :: real
  final_demand_score :: real
  final_ease_score :: real
  final_sns_score :: "real option"

record session_state =
  demand_data :: "demand_result pydict"
  competition_data :: "competition_result pydict"
  social_data :: "social_result pydict"
  final_scores :: "final_score pydict"

definition final_score_of :: "session_state \<Rightarrow> pyval \<Rightarrow> final_score" where
  "final_score_of st genre_name =
     (let demand_score = (case dict_get (demand_data st) genre_name of
                            Some r \<Rightarrow> demand_score r | None \<Rightarrow> 0);
          competition_score = (case dict_get (competition_data st) genre_name of
                                 Some r \<Rightarrow> ease_score r | None \<Rightarrow> 0);
          social_score = (case dict_get (social_data st) genre_name of
                            Some r \<Rightarrow> sns_score r | None \<Rightarrow> 0);
          total_score =
            (if dict_get (social_data st) genre_name \<noteq> None then
               demand_score * (4 / 10) + competition_score * (4 / 10) + social_score * (2 / 10)
             else demand_score * (5 / 10) + competition_score * (5 / 10))
      in \<lparr>total_score = total_score,
          final_demand_score = demand_score,
          final_ease_score = competition_score,
          final_sns_score =
            (if dict_get (social_data st) genre_name \<noteq> None then Some social_score else None)\<rparr>)"

definition calculate_final_scores :: "session_state \<Rightarrow> session_state" where
  "calculate_final_scores st =
     st\<lparr>final_scores :=
          fold (\<lambda>genre_name scores. dict_set scores genre_name (final_score_of st genre_name))
            (map fst (demand_data st)) []\<rparr>"


text \<open>
  The analysis that the button of \<^verbatim>\<open>run_niche_finder\<close> starts, once the genres are there:
  the demand analysis, the competition analysis (called without an API key), the social
  analysis when the box is ticked, then the final scores. The two keys are the strings of
  the text inputs. The session state starts with empty mappings. An exception in an
  analyzer ends the run.
\<close>

definition initial_session_state :: session_state where
  "initial_session_state =
     \<lparr>demand_data = [], competition_data = [], social_data = [], final_scores = []\<rparr>"

definition run_analysis ::
  "'g libs \<Rightarrow> pyval \<Rightarrow> pystr \<Rightarrow> pystr \<Rightarrow> bool \<Rightarrow> session_state \<Rightarrow> 'g \<Rightarrow>
   pyerr + session_state \<times> 'g" where
  "run_analysis L genres google_api_key twitter_bearer_token add_tweet_analysis st g =
     (case analyze_demand L genres google_api_key g of
        Inl e \<Rightarrow> Inl e
      | Inr (demand, g1) \<Rightarrow>
          (case analyze_genre_competition L genres None None g1 of
             Inl e \<Rightarrow> Inl e
           | Inr (competition, g2) \<Rightarrow>
               if add_tweet_analysis then
                 (case analyze_genre_social L genres (Some twitter_bearer_token) g2 of
                    Inl e \<Rightarrow> Inl e
                  | Inr (social, g3) \<Rightarrow>
                      Inr (calculate_final_scores
                             (st\<lparr>demand_data := demand, competition_data := competition,
                                 social_data := social\<rparr>), g3))
               else
                 Inr (calculate_final_scores
                        (st\<lparr>demand_data := demand, competition_data := competition\<rparr>), g2)))"

section \<open>Notions used to state the properties\<close>

text \<open>The keys of a mapping built by storing under \<open>names\<close> in turn: a name that is
  already a key keeps its place.\<close>

definition add_key :: "pyval list \<Rightarrow> pyval \<Rightarrow> pyval list" where
  "add_key ks k = (if list_ex (\<lambda>k'. py_eq k' k) ks then ks else ks @ [k])"

definition insertion_order :: "pyval list \<Rightarrow> pyval list" where
  "insertion_order names = fold (\<lambda>k ks. add_key ks k) names []"

text \<open>The names of the entries of a payload that pass the two checks, in payload order.\<close>

definition selected_names :: "pyval list \<Rightarrow> pyval list" where
  "selected_names entries = map fst (List.map_filter selected entries)"

text \<open>The entries the loop of an analyzer runs over: those of the payload brought into
  the shape of a list (none where the analyzer returns the empty mapping at once).\<close>

definition payload_entries :: "'g libs \<Rightarrow> pyval \<Rightarrow> pyval list" where
  "payload_entries L genres =
     (case coerce_genres L genres of
        None \<Rightarrow> []
      | Some gs \<Rightarrow> (case py_iter gs of Inl e \<Rightarrow> [] | Inr entries \<Rightarrow> entries))"

text \<open>The keys of the mapping an analyzer returns, \<open>None\<close> when it raises.\<close>

definition names_of :: "pyerr + 'v pydict \<times> 'g \<Rightarrow> pyval list option" where
  "names_of r = (case r of Inl e \<Rightarrow> None | Inr out \<Rightarrow> Some (map fst (fst out)))"


text \<open>The competition metric in the words of the specification, from the two draws
  \<open>base\<close> and \<open>u\<close>: the difficulty is the clamped sum, the number of competitors is
  rounded to the nearest integer.\<close>

definition spec_competition_metric :: "real \<Rightarrow> real \<Rightarrow> pystr \<Rightarrow> real \<times> int" where
  "spec_competition_metric base u k =
     (let lengthFactor = real (length k) / 10;
          commonFactor = 10 * real (length (filter (\<lambda>word. str_contains word k) common_keywords));
          difficulty = min 100 (max 0 (base + commonFactor - lengthFactor))
      in (difficulty, round (difficulty * 1000 + u)))"

subsection \<open>A small instance of the library\<close>

text \<open>
  A concrete library to evaluate the model on: the generator state is a counter, a draw
  is a fixed fraction of the interval computed from the counter, the hash of a keyword is
  the sum of its code points, \<open>demo_json_loads\<close> parses the documents \<^verbatim>\<open>null\<close> and
  \<^verbatim>\<open>[]\<close> and rejects every other text, and the trends service is out of reach.
\<close>

definition demo_fraction :: "nat \<Rightarrow> real" where
  "demo_fraction g = real ((37 * g) mod 100000) / 100000"

definition demo_json_loads :: "pystr \<Rightarrow> pyval option" where
  "demo_json_loads s =
     (if s = [0x6E, 0x75, 0x6C, 0x6C] then Some PNone
      else if s = [0x5B, 0x5D] then Some (PList [])
      else None)"

definition demo_libs :: "nat libs" where
  "demo_libs =
     \<lparr>hashlib_md5_int = sum_list,
      random_seed = (\<lambda>n. n),
      random_uniform = (\<lambda>a b g. (a + (b - a) * demo_fraction g, g + 1)),
      random_randint = (\<lambda>a b g. (a + int (g mod (nat (b - a) + 1)), g + 1)),
      random_choices = (\<lambda>population weights g.
         (if population = [] then [] else population ! (g mod length population), g + 1)),
      json_loads = demo_json_loads,
      trendreq_init = None,
      interest_over_time = (\<lambda>kw_group. Inl ProviderError)\<rparr>"

text \<open>A session state after the three analyses of one genre.\<close>

definition demo_state :: session_state where
  "demo_state =
     \<lparr>demand_data =
        [(PStr [120], \<lparr>demand_genre_name = PStr [120], keyword_analysis = [], demand_score = 60\<rparr>)],
      competition_data =
        [(PStr [120], \<lparr>competition_genre_name = PStr [120], keyword_competition = [], ease_score = 80\<rparr>)],
      social_data =
        [(PStr [120], \<lparr>social_genre_name = PStr [120], sns_analysis = [], sns_score = 50\<rparr>)],
      final_scores = []\<rparr>"

text \<open>What the competition, the social and the demand analysis return for the payload
  \<^verbatim>\<open>["x"]\<close> on the small library, with no API key.\<close>

definition demo_competition_out :: "competition_result pydict" where
  "demo_competition_out =
     [(PStr [120], \<lparr>competition_genre_name = PStr [120],
        keyword_competition = [(PStr [120], [(PStr s_difficulty, PFloat (43 / 10)),
           (PStr s_competitors, PInt 4787), (PStr s_data_source, PStr s_mock_data)])],
        ease_score = 100\<rparr>)]"

definition demo_social_out :: "social_result pydict" where
  "demo_social_out =
     [(PStr [120], \<lparr>social_genre_name = PStr [120],
        sns_analysis = [(PStr [120], [(PStr s_tweet_count, PInt 170),
           (PStr s_engagement_rate, PFloat (93 / 100)), (PStr s_sentiment, PStr s_neutral),
           (PStr s_data_source, PStr s_mock_data)])],
        sns_score = 1567 / 100\<rparr>)]"

definition demo_demand_out :: "demand_result pydict" where
  "demo_demand_out =
     [(PStr [120], \<lparr>demand_genre_name = PStr [120],
        keyword_analysis = [(PStr [120],
           \<lparr>trend_information = \<lparr>average_interest = 0, trend = s_unknown\<rparr>,
            monthly_search_volume = 500\<rparr>)],
        demand_score = 250\<rparr>)]"

text \<open>The session state after the analysis of the payload \<^verbatim>\<open>["x"]\<close> on the small
  library, with the social analysis.\<close>

definition demo_final_state :: session_state where
  "demo_final_state =
     \<lparr>demand_data = demo_demand_out,
      competition_data = demo_competition_out,
      social_data = demo_social_out,
      final_scores =
        [(PStr [120], \<lparr>total_score = 143134 / 1000, final_demand_score = 250,
                        final_ease_score = 100, final_sns_score = Some (1567 / 100)\<rparr>)]\<rparr>"

text \<open>A payload of two entries with the same name and different keywords.\<close>

definition demo_duplicate_entries :: "pyval list" where
  "demo_duplicate_entries =
     [PDict [(PStr s_genre_name, PStr [97]), (PStr s_keywords, PList [PStr [120]])],
      PDict [(PStr s_genre_name, PStr [97]), (PStr s_keywords, PList [PStr [121]])]]"

text \<open>The names in the mapping the competition analysis returns and, with each name, the
  keywords its entry holds; \<open>None\<close> when the analysis raises.\<close>

definition analysed_keywords ::
  "pyerr + competition_result pydict \<times> 'g \<Rightarrow> (pyval \<times> pyval list) list option" where
  "analysed_keywords r =
     (case r of
        Inl e \<Rightarrow> None
      | Inr out \<Rightarrow> Some (map (\<lambda>kv. (fst kv, map fst (keyword_competition (snd kv)))) (fst out)))"



text \<open>Two entries of the name \<^verbatim>\<open>"a"\<close>, one with the keyword \<^verbatim>\<open>"x"\<close> and one with the
  keyword \<^verbatim>\<open>"y"\<close>, and a payload of three entries: the first of the two, the name \<^verbatim>\<open>"b"\<close>,
  the second of the two.\<close>

definition demo_entry_x :: pyval where
  "demo_entry_x = PDict [(PStr s_genre_name, PStr [97]), (PStr s_keywords, PList [PStr [120]])]"

definition demo_entry_y :: pyval where
  "demo_entry_y = PDict [(PStr s_genre_name, PStr [97]), (PStr s_keywords, PList [PStr [121]])]"

definition demo_three_entries :: "pyval list" where
  "demo_three_entries = [demo_entry_x, PStr [98], demo_entry_y]"

text \<open>Three keywords: \<^verbatim>\<open>"a"\<close>, a string that is one lone surrogate (\<^verbatim>\<open>U+D800\<close>), and \<^verbatim>\<open>"b"\<close>.\<close>

definition demo_surrogate_keywords :: "pyval list" where
  "demo_surrogate_keywords = [PStr [97], PStr [0xD800], PStr [98]]"

section \<open>Dictionaries: basic facts\<close>

lemma py_eq_refl: "py_eq a a"
  by (simp add: py_eq_def split: option.splits)

lemma py_eq_sym: "py_eq a b \<Longrightarrow> py_eq b a"
  by (auto simp: py_eq_def split: option.splits)

lemma py_eq_trans: "py_eq a b \<Longrightarrow> py_eq b c \<Longrightarrow> py_eq a c"
  by (auto simp: py_eq_def split: option.splits)

lemma py_eq_left: "py_eq a b \<Longrightarrow> py_eq a c = py_eq b c"
  by (meson py_eq_sym py_eq_trans)

lemma py_eq_right: "py_eq a b \<Longrightarrow> py_eq c a = py_eq c b"
  by (meson py_eq_sym py_eq_trans)

lemma py_eq_PStr: "py_eq (PStr a) v = (v = PStr a)" "py_eq v (PStr a) = (v = PStr a)"
  by (cases v; auto simp: py_eq_def)+

lemma dict_get_cong:
  assumes "py_eq k k'"
  shows "dict_get d k = dict_get d k'"
proof -
  have "\<And>c. py_eq c k = py_eq c k'"
    using assms by (rule py_eq_right)
  then show ?thesis by (induction d) auto
qed

lemma dict_get_dict_set:
  "dict_get (dict_set d k v) k' = (if py_eq k k' then Some v else dict_get d k')"
proof (induction d)
  case Nil
  show ?case by simp
next
  case (Cons a d)
  obtain k0 v0 where a: "a = (k0, v0)" by (cases a)
  show ?case
  proof (cases "py_eq k0 k")
    case True
    then have "py_eq k0 k' = py_eq k k'" by (rule py_eq_left)
    with True a show ?thesis by simp
  next
    case False
    then have "\<not> (py_eq k0 k' \<and> py_eq k k')"
      using py_eq_trans [of k0 k' k] py_eq_sym [of k k'] by blast
    with False a Cons show ?thesis by auto
  qed
qed

lemma dict_get_key: "(dict_get d k \<noteq> None) = list_ex (\<lambda>k'. py_eq k' k) (map fst d)"
  by (induction d) auto

lemma map_fst_dict_set: "map fst (dict_set d k v) = add_key (map fst d) k"
  by (induction d) (auto simp: add_key_def)

lemma fold_dict_set_get:
  assumes "\<And>n. py_eq n k \<Longrightarrow> f n = f k"
  shows "dict_get (fold (\<lambda>n sc. dict_set sc n (f n)) ns sc0) k =
         (if list_ex (\<lambda>n. py_eq n k) ns then Some (f k) else dict_get sc0 k)"
  using assms by (induction ns arbitrary: sc0) (auto simp: dict_get_dict_set)

section \<open>The composite score\<close>

lemma final_score_of_cong: "py_eq n k \<Longrightarrow> final_score_of st n = final_score_of st k"
  by (simp add: final_score_of_def dict_get_cong [of n k])

text \<open>
  Claim C3. For a genre with a demand result (score \<open>d\<close>) and a competition result (score
  \<open>c\<close>), \<^verbatim>\<open>calculate_final_scores\<close> stores a total: with a social result of score \<open>s\<close> it
  is \<open>0.4 d + 0.4 c + 0.2 s\<close>, without a social result it is \<open>0.5 d + 0.5 c\<close>.
\<close>

theorem composite_total_weights:
  assumes "dict_get (demand_data st) genre_name = Some rd"
    and "dict_get (competition_data st) genre_name = Some rc"
  shows "\<exists>f. dict_get (final_scores (calculate_final_scores st)) genre_name = Some f \<and>
             total_score f =
               (case dict_get (social_data st) genre_name of
                  Some rs \<Rightarrow> 4 / 10 * demand_score rd + 4 / 10 * ease_score rc + 2 / 10 * sns_score rs
                | None \<Rightarrow> 5 / 10 * demand_score rd + 5 / 10 * ease_score rc)"
proof -
  have key: "list_ex (\<lambda>n. py_eq n genre_name) (map fst (demand_data st))"
    using assms(1) dict_get_key [of "demand_data st" genre_name] by simp
  have "dict_get (final_scores (calculate_final_scores st)) genre_name =
        Some (final_score_of st genre_name)"
    using key
    by (simp add: calculate_final_scores_def
          fold_dict_set_get [where f = "final_score_of st", OF final_score_of_cong])
  moreover have "total_score (final_score_of st genre_name) =
               (case dict_get (social_data st) genre_name of
                  Some rs \<Rightarrow> 4 / 10 * demand_score rd + 4 / 10 * ease_score rc + 2 / 10 * sns_score rs
                | None \<Rightarrow> 5 / 10 * demand_score rd + 5 / 10 * ease_score rc)"
    using assms by (simp add: final_score_of_def Let_def split: option.splits)
  ultimately show ?thesis by simp
qed

theorem composite_total_weights_witness:
  "dict_get (demand_data demo_state) (PStr [120]) =
     Some \<lparr>demand_genre_name = PStr [120], keyword_analysis = [], demand_score = 60\<rparr> \<and>
   dict_get (competition_data demo_state) (PStr [120]) =
     Some \<lparr>competition_genre_name = PStr [120], keyword_competition = [], ease_score = 80\<rparr> \<and>
   (\<exists>f. dict_get (final_scores (calculate_final_scores demo_state)) (PStr [120]) = Some f \<and>
        total_score f = 66) \<and>
   (\<exists>f. dict_get (final_scores (calculate_final_scores (demo_state\<lparr>social_data := []\<rparr>)))
          (PStr [120]) = Some f \<and>
        total_score f = 70)"
proof -
  have d: "dict_get (demand_data demo_state) (PStr [120]) =
     Some \<lparr>demand_genre_name = PStr [120], keyword_analysis = [], demand_score = 60\<rparr>"
    by (simp add: demo_state_def py_eq_PStr)
  have c: "dict_get (competition_data demo_state) (PStr [120]) =
     Some \<lparr>competition_genre_name = PStr [120], keyword_competition = [], ease_score = 80\<rparr>"
    by (simp add: demo_state_def py_eq_PStr)
  have s: "dict_get (social_data demo_state) (PStr [120]) =
     Some \<lparr>social_genre_name = PStr [120], sns_analysis = [], sns_score = 50\<rparr>"
    by (simp add: demo_state_def py_eq_PStr)
  have "\<exists>f. dict_get (final_scores (calculate_final_scores demo_state)) (PStr [120]) = Some f \<and>
        total_score f = 66"
    using composite_total_weights [OF d c] by (simp add: s)
  moreover have "\<exists>f. dict_get (final_scores (calculate_final_scores (demo_state\<lparr>social_data := []\<rparr>)))
          (PStr [120]) = Some f \<and> total_score f = 70"
  proof -
    have d': "dict_get (demand_data (demo_state\<lparr>social_data := []\<rparr>)) (PStr [120]) =
       Some \<lparr>demand_genre_name = PStr [120], keyword_analysis = [], demand_score = 60\<rparr>"
      using d by simp
    have c': "dict_get (competition_data (demo_state\<lparr>social_data := []\<rparr>)) (PStr [120]) =
       Some \<lparr>competition_genre_name = PStr [120], keyword_competition = [], ease_score = 80\<rparr>"
      using c by simp
    show ?thesis
      using composite_total_weights [OF d' c'] by simp
  qed
  ultimately show ?thesis using d c by simp
qed

section \<open>The payload\<close>

lemma demo_libs_simps:
  "hashlib_md5_int demo_libs = sum_list"
  "random_seed demo_libs = (\<lambda>n. n)"
  "random_uniform demo_libs a b g = (a + (b - a) * demo_fraction g, g + 1)"
  "random_randint demo_libs i j g = (i + int (g mod (nat (j - i) + 1)), g + 1)"
  "random_choices demo_libs population weights g =
     (if population = [] then [] else population ! (g mod length population), g + 1)"
  "json_loads demo_libs = demo_json_loads"
  "trendreq_init demo_libs = None"
  "interest_over_time demo_libs kw = Inl ProviderError"
  by (simp_all add: demo_libs_def)

lemma coerce_genres_list: "coerce_genres L (PList xs) = Some (PList xs)"
  by (simp add: coerce_genres_def is_list_def)

lemma coerce_genres_none: "coerce_genres L PNone = Some PNone"
  by (simp add: coerce_genres_def is_list_def from_dict_def)

lemma coerce_genres_unparsed: "json_loads L s = None \<Longrightarrow> coerce_genres L (PStr s) = None"
  by (simp add: coerce_genres_def is_list_def)

lemma coerce_genres_null: "json_loads L s = Some PNone \<Longrightarrow> coerce_genres L (PStr s) = Some PNone"
  by (simp add: coerce_genres_def is_list_def from_dict_def)

text \<open>
  Claim C4 (a payload of any type never makes an analyzer raise). The payload \<^verbatim>\<open>None\<close>,
  and a string whose JSON parse is \<^verbatim>\<open>None\<close> (the text \<^verbatim>\<open>null\<close>), pass the \<^verbatim>\<open>try\<close> block
  and the check for numbers and strings unchanged; \<^verbatim>\<open>for genre in genres\<close> then raises
  \<^verbatim>\<open>TypeError\<close> in each of the three analyzers.
\<close>

theorem none_payload_raises:
  assumes "json_loads L s = Some PNone"
  shows "analyze_demand L (PStr s) google_api_key g = Inl TypeError \<and>
         analyze_genre_competition L (PStr s) semrush_api_key ubersuggest_api_key g = Inl TypeError \<and>
         analyze_genre_social L (PStr s) twitter_bearer_token g = Inl TypeError \<and>
         analyze_demand L PNone google_api_key g = Inl TypeError \<and>
         analyze_genre_competition L PNone semrush_api_key ubersuggest_api_key g = Inl TypeError \<and>
         analyze_genre_social L PNone twitter_bearer_token g = Inl TypeError"
  using assms
  by (simp add: analyze_demand_def analyze_genre_competition_def analyze_genre_social_def
        coerce_genres_none coerce_genres_null)

theorem none_payload_raises_witness:
  "json_loads demo_libs [0x6E, 0x75, 0x6C, 0x6C] = Some PNone \<and>
   analyze_demand demo_libs (PStr [0x6E, 0x75, 0x6C, 0x6C]) [] (0::nat) = Inl TypeError \<and>
   analyze_genre_competition demo_libs (PStr [0x6E, 0x75, 0x6C, 0x6C]) None None (0::nat) = Inl TypeError \<and>
   analyze_genre_social demo_libs (PStr [0x6E, 0x75, 0x6C, 0x6C]) None (0::nat) = Inl TypeError"
proof -
  have h: "json_loads demo_libs [0x6E, 0x75, 0x6C, 0x6C] = Some PNone"
    by (simp add: demo_libs_simps demo_json_loads_def)
  show ?thesis
    using none_payload_raises [OF h] h by simp
qed

text \<open>
  Claim C7. A string payload that \<^verbatim>\<open>json.loads\<close> rejects makes each of the three analyzers
  return the empty mapping without raising (and without touching the generator), and the
  final scores computed from empty mappings are the empty mapping.
\<close>

theorem invalid_json_gives_empty:
  assumes "json_loads L s = None"
  shows "analyze_demand L (PStr s) google_api_key g = Inr ([], g) \<and>
         analyze_genre_competition L (PStr s) semrush_api_key ubersuggest_api_key g = Inr ([], g) \<and>
         analyze_genre_social L (PStr s) twitter_bearer_token g = Inr ([], g) \<and>
         final_scores (calculate_final_scores
           \<lparr>demand_data = [], competition_data = [], social_data = [], final_scores = old\<rparr>) = []"
  using assms
  by (simp add: analyze_demand_def analyze_genre_competition_def analyze_genre_social_def
        coerce_genres_unparsed calculate_final_scores_def)

theorem invalid_json_gives_empty_witness:
  "json_loads demo_libs [0x6E, 0x6F, 0x74, 0x20, 0x61, 0x20, 0x74, 0x6F, 0x70, 0x69, 0x63, 0x20, 0x6C, 0x69, 0x73, 0x74] = None \<and>
   analyze_demand demo_libs (PStr [0x6E, 0x6F, 0x74, 0x20, 0x61, 0x20, 0x74, 0x6F, 0x70, 0x69, 0x63, 0x20, 0x6C, 0x69, 0x73, 0x74]) [] (0::nat) = Inr ([], 0) \<and>
   analyze_genre_competition demo_libs (PStr [0x6E, 0x6F, 0x74, 0x20, 0x61, 0x20, 0x74, 0x6F, 0x70, 0x69, 0x63, 0x20, 0x6C, 0x69, 0x73, 0x74]) None None (0::nat) = Inr ([], 0) \<and>
   analyze_genre_social demo_libs (PStr [0x6E, 0x6F, 0x74, 0x20, 0x61, 0x20, 0x74, 0x6F, 0x70, 0x69, 0x63, 0x20, 0x6C, 0x69, 0x73, 0x74]) None (0::nat) = Inr ([], 0)"
proof -
  have h: "json_loads demo_libs [0x6E, 0x6F, 0x74, 0x20, 0x61, 0x20, 0x74, 0x6F, 0x70, 0x69, 0x63, 0x20, 0x6C, 0x69, 0x73, 0x74] = None"
    by (simp add: demo_libs_simps demo_json_loads_def)
  show ?thesis
    using invalid_json_gives_empty [OF h] h by simp
qed

section \<open>The mock data\<close>

text \<open>
  Claim C2 (the mock metric of every axis is a function of the keyword alone). The mock
  data of the competition and the social axis do not depend on the state of the generator
  they are called in, because they seed it from the keyword. \<^verbatim>\<open>mock_search_volume\<close> of the
  demand axis does not seed: its value is the next draw of the generator as it stands, for
  whatever keyword, so two calls with the same keyword differ (here on the small library:
  500, then 501).
\<close>

theorem mock_metric_sources:
  "fst (mock_competition_data L k g) = fst (mock_competition_data L k g') \<and>
   fst (mock_twitter_data L k g) = fst (mock_twitter_data L k g') \<and>
   mock_search_volume L k g = random_randint L 500 10000 g \<and>
   mock_search_volume demo_libs (PStr [120]) 0 = (500, 1) \<and>
   mock_search_volume demo_libs (PStr [120]) 1 = (501, 2)"
  by (simp add: mock_competition_data_def mock_twitter_data_def mock_search_volume_def
        demo_libs_simps Let_def split: pyval.splits prod.splits)

lemma round_half_even_ge: "of_int m \<le> x \<Longrightarrow> m \<le> round_half_even x"
proof -
  assume "of_int m \<le> x"
  then have "m \<le> \<lfloor>x\<rfloor>" by (simp add: le_floor_iff)
  then show ?thesis by (simp add: round_half_even_def Let_def)
qed

lemma round_half_even_le: "x \<le> of_int m \<Longrightarrow> round_half_even x \<le> m"
proof -
  assume h: "x \<le> of_int m"
  then have f: "\<lfloor>x\<rfloor> \<le> m" by (simp add: floor_le_iff)
  have "x - of_int \<lfloor>x\<rfloor> > 0 \<Longrightarrow> \<lfloor>x\<rfloor> + 1 \<le> m"
  proof -
    assume "x - of_int \<lfloor>x\<rfloor> > 0"
    then have "of_int \<lfloor>x\<rfloor> < (of_int m :: real)" using h by linarith
    then show ?thesis by simp
  qed
  then show ?thesis using f by (auto simp: round_half_even_def Let_def)
qed

lemma py_round_ge0: "0 \<le> x \<Longrightarrow> 0 \<le> py_round x n"
proof -
  assume "0 \<le> x"
  then have "of_int 0 \<le> x * 10 ^ n" by simp
  then have "0 \<le> round_half_even (x * 10 ^ n)" by (rule round_half_even_ge)
  then show ?thesis by (simp add: py_round_def)
qed

lemma py_round_le: "x \<le> of_int m \<Longrightarrow> py_round x n \<le> of_int m"
proof -
  assume "x \<le> of_int m"
  then have "x * 10 ^ n \<le> of_int (m * 10 ^ n)" by simp
  then have "round_half_even (x * 10 ^ n) \<le> m * 10 ^ n" by (rule round_half_even_le)
  then have "(of_int (round_half_even (x * 10 ^ n)) :: real) \<le> of_int (m * 10 ^ n)"
    by (simp only: of_int_le_iff)
  then show ?thesis by (simp add: py_round_def divide_le_eq)
qed


lemma random_ok_uniform:
  "random_ok L \<Longrightarrow> a \<le> b \<Longrightarrow> a \<le> fst (random_uniform L a b g) \<and> fst (random_uniform L a b g) \<le> b"
  by (simp add: random_ok_def)

lemma random_ok_randint:
  "random_ok L \<Longrightarrow> a \<le> b \<Longrightarrow> a \<le> fst (random_randint L a b g) \<and> fst (random_randint L a b g) \<le> b"
  by (simp add: random_ok_def)

lemma demo_fraction_range: "0 \<le> demo_fraction g \<and> demo_fraction g \<le> 1"
proof -
  have "(37 * g) mod 100000 < 100000" by simp
  then have "real ((37 * g) mod 100000) \<le> 100000" by linarith
  then show ?thesis by (simp add: demo_fraction_def)
qed

lemma random_ok_demo_libs: "random_ok demo_libs"
proof -
  have u: "a \<le> a + (b - a) * demo_fraction g \<and> a + (b - a) * demo_fraction g \<le> b"
    if "a \<le> b" for a b :: real and g
  proof -
    have "0 \<le> (b - a) * demo_fraction g"
      using that demo_fraction_range [of g] by simp
    moreover have "(b - a) * demo_fraction g \<le> (b - a) * 1"
      using that demo_fraction_range [of g] by (intro mult_left_mono) simp_all
    ultimately show ?thesis by simp
  qed
  have r: "i \<le> i + int (g mod (nat (j - i) + 1)) \<and> i + int (g mod (nat (j - i) + 1)) \<le> j"
    if "i \<le> j" for i j :: int and g
  proof -
    have "g mod (nat (j - i) + 1) < nat (j - i) + 1" by simp
    then have "int (g mod (nat (j - i) + 1)) \<le> j - i" using that by linarith
    then show ?thesis by simp
  qed
  show ?thesis
    using u r by (simp add: random_ok_def demo_libs_simps)
qed

lemma round_half_even_of_int: "round_half_even (of_int m) = m"
  by (simp add: round_half_even_def)

lemma py_round_0: "py_round 0 n = 0"
  using round_half_even_of_int [of 0] by (simp add: py_round_def)

lemma py_round_100: "py_round 100 (Suc 0) = 100"
  using round_half_even_of_int [of 1000] by (simp add: py_round_def)

lemma number_clamp: "number (clamp_0_100 x) = min 100 (max 0 x)"
  by (simp add: number_def clamp_0_100_def)

lemma num_of_round1_clamp:
  "num_of (py_round1 (clamp_0_100 x)) = Some (py_round (min 100 (max 0 x)) 1)"
  by (simp add: clamp_0_100_def py_round_0 py_round_100 min_def max_def)

text \<open>
  Claim C8, as amended. With \<open>base\<close> and \<open>u\<close> the two draws from the generator seeded
  with the hash of the keyword, \<open>raw\<close> the sum \<open>base + commonFactor - lengthFactor\<close> and
  \<open>difficulty\<close> that sum clamped to \<open>[0, 100]\<close>: the mock metric of a keyword that can be
  encoded reports \<open>difficulty\<close> rounded to one decimal (the integer 0 or 100 where the
  clamp takes a bound), a number in \<open>[0, 100]\<close>, and as the number of competitors
  \<open>difficulty * 1000 + u\<close> truncated to an integer (its floor), which is not negative. For
  a keyword with a lone surrogate the mock raises \<^verbatim>\<open>UnicodeEncodeError\<close>.
\<close>

theorem mock_competition_metric:
  assumes "random_ok L"
  shows "\<exists>base g1 u g2 raw difficulty.
     random_uniform L 0 100 (random_seed L (hashlib_md5_int L k)) = (base, g1) \<and>
     random_uniform L 0 10000 g1 = (u, g2) \<and>
     raw = base
         + 10 * real (length (filter (\<lambda>word. str_contains word k) common_keywords))
         - real (length k) / 10 \<and>
     difficulty = min 100 (max 0 raw) \<and>
     mock_competition_data L (PStr k) g =
       (if encodable k then
          (Inr [(PStr s_difficulty, py_round1 (clamp_0_100 raw)),
                (PStr s_competitors, PInt \<lfloor>difficulty * 1000 + u\<rfloor>),
                (PStr s_data_source, PStr s_mock_data)], g2)
        else (Inl UnicodeEncodeError, g)) \<and>
     num_of (py_round1 (clamp_0_100 raw)) = Some (py_round difficulty 1) \<and>
     0 \<le> py_round difficulty 1 \<and> py_round difficulty 1 \<le> 100 \<and>
     0 \<le> \<lfloor>difficulty * 1000 + u\<rfloor>"
proof -
  obtain base g1 where b: "random_uniform L 0 100 (random_seed L (hashlib_md5_int L k)) = (base, g1)"
    by (cases "random_uniform L 0 100 (random_seed L (hashlib_md5_int L k))")
  obtain u g2 where u: "random_uniform L 0 10000 g1 = (u, g2)"
    by (cases "random_uniform L 0 10000 g1")
  define raw where "raw = base
         + 10 * real (length (filter (\<lambda>word. str_contains word k) common_keywords))
         - real (length k) / 10"
  define difficulty where "difficulty = min 100 (max 0 raw)"
  have d: "0 \<le> difficulty" "difficulty \<le> 100"
    by (simp_all add: difficulty_def)
  have u0: "0 \<le> u"
    using random_ok_uniform [OF assms, of 0 10000 g1] u by simp
  have p: "0 \<le> difficulty * 1000 + u"
    using d u0 by simp
  have r0: "0 \<le> py_round difficulty 1"
    using d by (simp add: py_round_ge0)
  have r1: "py_round difficulty 1 \<le> 100"
    using py_round_le [of difficulty 100 1] d by simp
  have n: "num_of (py_round1 (clamp_0_100 raw)) = Some (py_round difficulty 1)"
    unfolding difficulty_def by (rule num_of_round1_clamp)
  have c: "py_int (number (clamp_0_100 raw) * 1000 + u) = \<lfloor>difficulty * 1000 + u\<rfloor>"
    using p by (simp add: number_clamp py_int_def difficulty_def)
  have raw': "base
         + real (length (filter (\<lambda>word. str_contains word k) common_keywords)) * 10
         - real (length k) / 10 = raw"
    by (simp add: raw_def)
  have m: "mock_competition_data L (PStr k) g =
       (if encodable k then
          (Inr [(PStr s_difficulty, py_round1 (clamp_0_100 raw)),
                (PStr s_competitors, PInt \<lfloor>difficulty * 1000 + u\<rfloor>),
                (PStr s_data_source, PStr s_mock_data)], g2)
        else (Inl UnicodeEncodeError, g))"
    unfolding mock_competition_data_def Let_def pyval.case b u prod.case raw' c
    by simp
  have p': "0 \<le> \<lfloor>difficulty * 1000 + u\<rfloor>"
    using p by simp
  show ?thesis
    apply (rule exI [of _ base], rule exI [of _ g1], rule exI [of _ u], rule exI [of _ g2],
        rule exI [of _ raw], rule exI [of _ difficulty])
    apply (intro conjI)
            apply (fact b u raw_def difficulty_def m n r0 r1 p')+
    done
qed

theorem mock_competition_metric_witness:
  "random_ok demo_libs \<and>
   (\<exists>base g1 u g2 raw difficulty.
     random_uniform demo_libs 0 100 (random_seed demo_libs (hashlib_md5_int demo_libs [120])) = (base, g1) \<and>
     random_uniform demo_libs 0 10000 g1 = (u, g2) \<and>
     raw = base
         + 10 * real (length (filter (\<lambda>word. str_contains word [120]) common_keywords))
         - real (length [120::nat]) / 10 \<and>
     difficulty = min 100 (max 0 raw) \<and>
     mock_competition_data demo_libs (PStr [120]) 7 =
       (if encodable [120] then
          (Inr [(PStr s_difficulty, py_round1 (clamp_0_100 raw)),
                (PStr s_competitors, PInt \<lfloor>difficulty * 1000 + u\<rfloor>),
                (PStr s_data_source, PStr s_mock_data)], g2)
        else (Inl UnicodeEncodeError, 7)) \<and>
     num_of (py_round1 (clamp_0_100 raw)) = Some (py_round difficulty 1) \<and>
     0 \<le> py_round difficulty 1 \<and> py_round difficulty 1 \<le> 100 \<and>
     0 \<le> \<lfloor>difficulty * 1000 + u\<rfloor>)"
  using random_ok_demo_libs mock_competition_metric [OF random_ok_demo_libs, of "[120]" 7]
  by (rule conjI)

text \<open>
  Claim C8, as stated, fails: for the keyword \<^verbatim>\<open>"x"\<close> and the draws 4.44 and 447.7 the
  clamped sum is 4.34 and the specification's count is round(4787.7) = 4788, while the
  metric reports the difficulty 4.3 and the count 4787.
\<close>

theorem mock_competition_metric_counterexample:
  "random_uniform demo_libs 0 100 (random_seed demo_libs (hashlib_md5_int demo_libs [120])) =
     (444 / 100, 121) \<and>
   random_uniform demo_libs 0 10000 121 = (4477 / 10, 122) \<and>
   mock_competition_data demo_libs (PStr [120]) 0 =
     (Inr [(PStr s_difficulty, PFloat (43 / 10)),
           (PStr s_competitors, PInt 4787),
           (PStr s_data_source, PStr s_mock_data)], 122) \<and>
   spec_competition_metric (444 / 100) (4477 / 10) [120] = (434 / 100, 4788)"
  by (simp add: mock_competition_data_def demo_libs_simps demo_fraction_def
        common_keywords_def py_round_def round_half_even_def py_int_def Let_def
        spec_competition_metric_def round_def encodable_def surrogate_def
        clamp_0_100_def number_def)

section \<open>Loops, sums and averages\<close>

lemma for_each_invariant:
  assumes "for_each body xs s = Inr s'"
    and "P s"
    and "\<And>x t t'. x \<in> set xs \<Longrightarrow> P t \<Longrightarrow> body x t = Inr t' \<Longrightarrow> P t'"
  shows "P s'"
  using assms
proof (induction xs arbitrary: s)
  case Nil
  then show ?case by simp
next
  case (Cons x xs)
  from Cons.prems(1) obtain t where t: "body x s = Inr t" and r: "for_each body xs t = Inr s'"
    by (auto split: sum.splits)
  have "x \<in> set (x # xs)" by simp
  then have pt: "P t" using Cons.prems(2) t by (rule Cons.prems(3))
  have "P u'" if "y \<in> set xs" "P u" "body y u = Inr u'" for y u u'
  proof -
    have "y \<in> set (x # xs)" using that(1) by simp
    then show ?thesis using that(2,3) by (rule Cons.prems(3))
  qed
  with r pt show ?case by (rule Cons.IH)
qed

lemma in_dict_set: "kv \<in> set (dict_set d k v) \<Longrightarrow> kv \<in> set d \<or> snd kv = v"
  by (induction d) (auto split: if_splits)

lemma dict_get_in: "dict_get d k = Some v \<Longrightarrow> \<exists>kv \<in> set d. snd kv = v"
  by (induction d) (auto split: if_splits)

lemma in_fold_dict_set:
  "kv \<in> set (fold (\<lambda>k sc. dict_set sc k (F k)) ks sc0) \<Longrightarrow> kv \<in> set sc0 \<or> (\<exists>k. snd kv = F k)"
proof (induction ks arbitrary: sc0)
  case Nil
  then show ?case by simp
next
  case (Cons k ks)
  then have "kv \<in> set (dict_set sc0 k (F k)) \<or> (\<exists>k. snd kv = F k)" by simp
  then show ?case using in_dict_set [of kv sc0 k "F k"] by blast
qed

lemma py_sum_bounds:
  assumes "\<forall>v \<in> set vs. \<exists>x. num_of v = Some x \<and> lo \<le> x \<and> x \<le> hi"
  shows "\<exists>t. py_sum vs = Inr t \<and> real (length vs) * lo \<le> t \<and> t \<le> real (length vs) * hi"
  using assms
proof (induction vs)
  case Nil
  then show ?case by simp
next
  case (Cons v vs)
  then obtain t where t: "py_sum vs = Inr t" "real (length vs) * lo \<le> t" "t \<le> real (length vs) * hi"
    by auto
  from Cons.prems obtain x where x: "num_of v = Some x" "lo \<le> x" "x \<le> hi" by auto
  show ?case using t x by (simp add: algebra_simps)
qed

lemma average_of_bounds:
  assumes "\<forall>kv \<in> set d. \<exists>x. num_of (f (snd kv)) = Some x \<and> lo \<le> x \<and> x \<le> hi"
    and "lo \<le> 0" and "0 \<le> hi"
    and "average_of f d = Inr a"
  shows "lo \<le> a \<and> a \<le> hi"
proof (cases "d = []")
  case True
  then show ?thesis using assms by (simp add: average_of_def)
next
  case False
  have "\<forall>v \<in> set (map (\<lambda>kv. f (snd kv)) d). \<exists>x. num_of v = Some x \<and> lo \<le> x \<and> x \<le> hi"
    using assms(1) by simp
  from py_sum_bounds [OF this] obtain t where
    t: "py_sum (map (\<lambda>kv. f (snd kv)) d) = Inr t" "real (length d) * lo \<le> t" "t \<le> real (length d) * hi"
    by auto
  have n: "0 < real (length d)" using False by simp
  have a: "a = t / real (length d)" using assms(4) False t by (simp add: average_of_def)
  have "lo \<le> t / real (length d)"
    using t(2) n by (simp add: pos_le_divide_eq mult.commute)
  moreover have "t / real (length d) \<le> hi"
    using t(3) n by (simp add: pos_divide_le_eq mult.commute)
  ultimately show ?thesis using a by simp
qed

lemma average_of_nonneg:
  assumes "\<forall>kv \<in> set d. \<exists>x. num_of (f (snd kv)) = Some x \<and> 0 \<le> x"
    and "average_of f d = Inr a"
  shows "0 \<le> a"
proof (cases "d = []")
  case True
  then show ?thesis using assms by (simp add: average_of_def)
next
  case False
  have "\<exists>t. py_sum vs = Inr t \<and> 0 \<le> t"
    if "\<forall>v \<in> set vs. \<exists>x. num_of v = Some x \<and> 0 \<le> x" for vs
    using that
  proof (induction vs)
    case Nil
    then show ?case by simp
  next
    case (Cons v vs)
    then obtain t where "py_sum vs = Inr t" "0 \<le> t" by auto
    moreover from Cons.prems obtain x where "num_of v = Some x" "0 \<le> x" by auto
    ultimately show ?case by simp
  qed
  from this [of "map (\<lambda>kv. f (snd kv)) d"] assms(1)
  obtain t where t: "py_sum (map (\<lambda>kv. f (snd kv)) d) = Inr t" "0 \<le> t" by auto
  then show ?thesis using assms(2) False by (auto simp: average_of_def)
qed

lemma metric_keys_distinct:
  "s_difficulty \<noteq> s_keyword_difficulty" "s_competitors \<noteq> s_keyword_difficulty"
  "s_data_source \<noteq> s_keyword_difficulty"
  "s_tweet_count \<noteq> s_engagement_rate" "s_tweet_count \<noteq> s_sentiment"
  "s_engagement_rate \<noteq> s_sentiment" "s_data_source \<noteq> s_tweet_count"
  "s_data_source \<noteq> s_engagement_rate" "s_data_source \<noteq> s_sentiment"
  by (simp_all add: s_difficulty_def s_keyword_difficulty_def s_competitors_def s_data_source_def
        s_tweet_count_def s_engagement_rate_def s_sentiment_def)

lemma mock_competition_data_shape:
  assumes "mock_competition_data L kw g = (Inr data, g')"
  shows "\<exists>v d c. data = [(PStr s_difficulty, v), (PStr s_competitors, PInt c),
                          (PStr s_data_source, PStr s_mock_data)] \<and>
                  num_of v = Some d \<and> 0 \<le> d \<and> d \<le> 100"
proof -
  from assms obtain k where k: "kw = PStr k"
    by (cases kw) (auto simp: mock_competition_data_def)
  define raw where "raw = fst (random_uniform L 0 100 (random_seed L (hashlib_md5_int L k)))
      + real (length (filter (\<lambda>word. str_contains word k) common_keywords)) * 10
      - real (length k) / 10"
  define x where "x = min (100::real) (max 0 raw)"
  have x: "0 \<le> x" "x \<le> 100" by (simp_all add: x_def)
  have "0 \<le> py_round x 1" using x by (simp add: py_round_ge0)
  moreover have "py_round x 1 \<le> 100" using py_round_le [of x 100 1] x by simp
  moreover have "num_of (py_round1 (clamp_0_100 raw)) = Some (py_round x 1)"
    unfolding x_def by (rule num_of_round1_clamp)
  moreover have "\<exists>c. data = [(PStr s_difficulty, py_round1 (clamp_0_100 raw)),
                        (PStr s_competitors, PInt c),
                        (PStr s_data_source, PStr s_mock_data)]"
    using assms k
    by (auto simp: mock_competition_data_def Let_def raw_def split: prod.splits if_splits)
  ultimately show ?thesis by blast
qed

section \<open>The range of the axis scores\<close>

lemma competition_entry_range1:
  assumes "mock_competition_data L kw g = (Inr data, g')"
  shows "\<exists>x. num_of (dget data s_keyword_difficulty (PInt 0)) = Some x \<and> 0 \<le> x \<and> x \<le> 100"
proof -
  from mock_competition_data_shape [OF assms] obtain v d c where
    d: "data = [(PStr s_difficulty, v), (PStr s_competitors, PInt c),
                (PStr s_data_source, PStr s_mock_data)]" "num_of v = Some d" "0 \<le> d" "d \<le> 100"
    by blast
  show ?thesis
    using d by (simp add: dget_def py_eq_PStr metric_keys_distinct)
qed

lemma competition_entry_range2:
  assumes "mock_competition_data L kw g = (Inr data, g')"
  shows "\<exists>x. num_of (dget (provider_entry data src) s_keyword_difficulty (PInt 0)) = Some x \<and>
       0 \<le> x \<and> x \<le> 100"
proof -
  from mock_competition_data_shape [OF assms] obtain v d c where
    d: "data = [(PStr s_difficulty, v), (PStr s_competitors, PInt c),
                (PStr s_data_source, PStr s_mock_data)]" "num_of v = Some d" "0 \<le> d" "d \<le> 100"
    by blast
  show ?thesis
    using d by (simp add: dget_def provider_entry_def py_eq_PStr metric_keys_distinct)
qed

lemma competition_try_stub:
  assumes "competition_try L (get_semrush_data L) (get_ubersuggest_data L)
             semrush_api_key ubersuggest_api_key kw results g = (Inr results', g')"
  shows "\<exists>data. results' = dict_set results kw data \<and>
           (\<exists>x. num_of (dget data s_keyword_difficulty (PInt 0)) = Some x \<and> 0 \<le> x \<and> x \<le> 100)"
proof -
  consider (semrush) "key_given semrush_api_key"
    | (ubersuggest) "\<not> key_given semrush_api_key" "key_given ubersuggest_api_key"
    | (mock) "\<not> key_given semrush_api_key" "\<not> key_given ubersuggest_api_key"
    by blast
  then show ?thesis
  proof cases
    case semrush
    with assms obtain data g1 where
      m: "mock_competition_data L kw g = (Inr data, g1)"
      and r: "results' = dict_set results kw (provider_entry data s_Semrush)"
      by (auto simp: competition_try_def get_semrush_data_def store_def
            split: prod.splits sum.splits if_splits)
    show ?thesis using r competition_entry_range2 [OF m] by blast
  next
    case ubersuggest
    with assms obtain data g1 where
      m: "mock_competition_data L kw g = (Inr data, g1)"
      and r: "results' = dict_set results kw (provider_entry data s_Ubersuggest)"
      by (auto simp: competition_try_def get_ubersuggest_data_def store_def
            split: prod.splits sum.splits if_splits)
    show ?thesis using r competition_entry_range2 [OF m] by blast
  next
    case mock
    with assms obtain data g1 where
      m: "mock_competition_data L kw g = (Inr data, g1)"
      and r: "results' = dict_set results kw data"
      by (auto simp: competition_try_def store_def
            split: prod.splits sum.splits if_splits)
    show ?thesis using r competition_entry_range1 [OF m] by blast
  qed
qed

lemma competition_keyword_stub:
  assumes "competition_keyword L (get_semrush_data L) (get_ubersuggest_data L)
             semrush_api_key ubersuggest_api_key kw s = Inr s'"
  shows "\<exists>data. fst s' = dict_set (fst s) kw data \<and>
           (\<exists>x. num_of (dget data s_keyword_difficulty (PInt 0)) = Some x \<and> 0 \<le> x \<and> x \<le> 100)"
proof -
  obtain r g1 where t: "competition_try L (get_semrush_data L) (get_ubersuggest_data L)
             semrush_api_key ubersuggest_api_key kw (fst s) (snd s) = (r, g1)"
    by (cases "competition_try L (get_semrush_data L) (get_ubersuggest_data L)
             semrush_api_key ubersuggest_api_key kw (fst s) (snd s)")
  show ?thesis
  proof (cases r)
    case (Inr results')
    with assms t have "fst s' = results'" by (auto simp: competition_keyword_def)
    then show ?thesis using competition_try_stub [of L _ _ kw "fst s" "snd s" results' g1] t Inr
      by simp
  next
    case (Inl e)
    with assms t obtain data g2 where
      m: "mock_competition_data L kw g1 = (Inr data, g2)"
      and r: "fst s' = dict_set (fst s) kw data"
      by (auto simp: competition_keyword_def store_def split: prod.splits sum.splits if_splits)
    show ?thesis using r competition_entry_range1 [OF m] by blast
  qed
qed

lemma analyze_competition_range:
  assumes "analyze_competition L keywords semrush_api_key ubersuggest_api_key g = Inr (cd, g')"
  shows "\<forall>kv \<in> set cd. \<exists>x. num_of (dget (snd kv) s_keyword_difficulty (PInt 0)) = Some x \<and>
           0 \<le> x \<and> x \<le> 100"
proof -
  from assms obtain ks where
    loop: "for_each (competition_keyword L (get_semrush_data L) (get_ubersuggest_data L)
             semrush_api_key ubersuggest_api_key) ks ([], g) = Inr (cd, g')"
    by (auto simp: analyze_competition_def analyze_competition_with_def split: sum.splits)
  let ?P = "\<lambda>s :: metric pydict \<times> 'a. \<forall>kv \<in> set (fst s).
     \<exists>x. num_of (dget (snd kv) s_keyword_difficulty (PInt 0)) = Some x \<and> 0 \<le> x \<and> x \<le> 100"
  have "?P (cd, g')"
  proof (rule for_each_invariant [OF loop, where P = ?P])
    show "?P ([], g)" by simp
  next
    fix kw t t'
    assume p: "?P t"
      and b: "competition_keyword L (get_semrush_data L) (get_ubersuggest_data L)
             semrush_api_key ubersuggest_api_key kw t = Inr t'"
    from competition_keyword_stub [OF b] obtain data where
      d: "fst t' = dict_set (fst t) kw data"
         "\<exists>x. num_of (dget data s_keyword_difficulty (PInt 0)) = Some x \<and> 0 \<le> x \<and> x \<le> 100"
      by blast
    show "?P t'"
    proof
      fix kv assume "kv \<in> set (fst t')"
      then have "kv \<in> set (fst t) \<or> snd kv = data"
        using d(1) in_dict_set [of kv "fst t" kw data] by simp
      then show "\<exists>x. num_of (dget (snd kv) s_keyword_difficulty (PInt 0)) = Some x \<and> 0 \<le> x \<and> x \<le> 100"
        using p d(2) by auto
    qed
  qed
  then show ?thesis by simp
qed

lemma competition_genre_range:
  assumes "competition_genre L semrush_api_key ubersuggest_api_key genre s = Inr s'"
    and "\<forall>kv \<in> set (fst s). 0 \<le> ease_score (snd kv) \<and> ease_score (snd kv) \<le> 100"
  shows "\<forall>kv \<in> set (fst s'). 0 \<le> ease_score (snd kv) \<and> ease_score (snd kv) \<le> 100"
proof (cases "selected genre")
  case None
  then show ?thesis using assms by (simp add: competition_genre_def)
next
  case (Some nk)
  obtain genre_name kws where nk: "nk = (genre_name, kws)" by (cases nk)
  from assms(1) Some nk obtain cd g' avg where
    a: "analyze_competition L kws semrush_api_key ubersuggest_api_key (snd s) = Inr (cd, g')"
    and v: "average_of (\<lambda>data. dget data s_keyword_difficulty (PInt 0)) cd = Inr avg"
    and r: "fst s' = dict_set (fst s) genre_name
              \<lparr>competition_genre_name = genre_name, keyword_competition = cd,
               ease_score = 100 - avg\<rparr>"
    by (auto simp: competition_genre_def store_def split: sum.splits prod.splits if_splits)
  have "0 \<le> avg \<and> avg \<le> 100"
    using average_of_bounds [OF analyze_competition_range [OF a] _ _ v] by simp
  then show ?thesis
    using assms(2) r in_dict_set [of _ "fst s" genre_name] by fastforce
qed

lemma analyze_genre_competition_range:
  assumes "analyze_genre_competition L genres semrush_api_key ubersuggest_api_key g = Inr (out, g')"
  shows "\<forall>kv \<in> set out. 0 \<le> ease_score (snd kv) \<and> ease_score (snd kv) \<le> 100"
proof (cases "coerce_genres L genres")
  case None
  then show ?thesis using assms by (simp add: analyze_genre_competition_def)
next
  case (Some gs)
  with assms obtain entries where
    loop: "for_each (competition_genre L semrush_api_key ubersuggest_api_key) entries ([], g) = Inr (out, g')"
    by (auto simp: analyze_genre_competition_def split: sum.splits)
  let ?P = "\<lambda>s :: competition_result pydict \<times> 'a.
     \<forall>kv \<in> set (fst s). 0 \<le> ease_score (snd kv) \<and> ease_score (snd kv) \<le> 100"
  have "?P (out, g')"
    by (rule for_each_invariant [OF loop, where P = ?P]) (simp, rule competition_genre_range)
  then show ?thesis by simp
qed


lemma mock_twitter_data_shape:
  assumes "random_ok L" and "mock_twitter_data L kw g = (Inr data, g')"
  shows "\<exists>n e s. data = [(PStr s_tweet_count, PInt n), (PStr s_engagement_rate, PFloat e),
                        (PStr s_sentiment, PStr s), (PStr s_data_source, PStr s_mock_data)] \<and>
                  0 \<le> n \<and> 0 \<le> e"
proof -
  from assms(2) obtain k where k: "kw = PStr k"
    by (cases kw) (auto simp: mock_twitter_data_def)
  define g0 where "g0 = random_seed L (hashlib_md5_int L k)"
  obtain b g1 where b: "random_randint L 50 5000 g0 = (b, g1)"
    by (cases "random_randint L 50 5000 g0")
  obtain e g2 where e: "random_uniform L (5 / 10) 10 g1 = (e, g2)"
    by (cases "random_uniform L (5 / 10) 10 g1")
  have b0: "50 \<le> b" using random_ok_randint [OF assms(1), of 50 5000 g0] b by simp
  have e0: "5 / 10 \<le> e" using random_ok_uniform [OF assms(1), of "5 / 10" 10 g1] e by simp
  have "0 \<le> py_round e 2" using e0 by (simp add: py_round_ge0)
  moreover have "0 \<le> b * 3" "0 \<le> b" using b0 by simp_all
  moreover have "\<exists>s. data = [(PStr s_tweet_count,
                       PInt (b * (if list_ex (\<lambda>topic. str_contains topic k) common_topics then 3 else 1))),
                     (PStr s_engagement_rate, PFloat (py_round e 2)),
                     (PStr s_sentiment, PStr s), (PStr s_data_source, PStr s_mock_data)]"
    using assms(2) k b e
    by (auto simp: mock_twitter_data_def Let_def g0_def split: prod.splits if_splits)
  ultimately show ?thesis by (cases "list_ex (\<lambda>topic. str_contains topic k) common_topics") auto
qed

lemma twitter_entry_range1:
  assumes "random_ok L" and "mock_twitter_data L kw g = (Inr data, g')"
  shows "(\<exists>x. num_of (dget data s_tweet_count (PInt 0)) = Some x \<and> 0 \<le> x) \<and>
         (\<exists>x. num_of (dget data s_engagement_rate (PInt 0)) = Some x \<and> 0 \<le> x)"
proof -
  from mock_twitter_data_shape [OF assms] obtain n e s where
    d: "data = [(PStr s_tweet_count, PInt n), (PStr s_engagement_rate, PFloat e),
                (PStr s_sentiment, PStr s), (PStr s_data_source, PStr s_mock_data)]" "0 \<le> n" "0 \<le> e"
    by blast
  show ?thesis
    using d by (simp add: dget_def py_eq_PStr metric_keys_distinct)
qed

lemma twitter_entry_range2:
  assumes "random_ok L" and "mock_twitter_data L kw g = (Inr data, g')"
  shows "(\<exists>x. num_of (dget (twitter_entry data) s_tweet_count (PInt 0)) = Some x \<and> 0 \<le> x) \<and>
         (\<exists>x. num_of (dget (twitter_entry data) s_engagement_rate (PInt 0)) = Some x \<and> 0 \<le> x)"
proof -
  from mock_twitter_data_shape [OF assms] obtain n e s where
    d: "data = [(PStr s_tweet_count, PInt n), (PStr s_engagement_rate, PFloat e),
                (PStr s_sentiment, PStr s), (PStr s_data_source, PStr s_mock_data)]" "0 \<le> n" "0 \<le> e"
    by blast
  show ?thesis
    using d by (simp add: dget_def twitter_entry_def py_eq_PStr metric_keys_distinct)
qed

lemma twitter_try_stub:
  assumes "random_ok L"
    and "twitter_try L (get_twitter_data L) twitter_bearer_token kw results g = (Inr results', g')"
  shows "\<exists>data. results' = dict_set results kw data \<and>
           (\<exists>x. num_of (dget data s_tweet_count (PInt 0)) = Some x \<and> 0 \<le> x) \<and>
           (\<exists>x. num_of (dget data s_engagement_rate (PInt 0)) = Some x \<and> 0 \<le> x)"
proof (cases "key_given twitter_bearer_token")
  case True
  with assms(2) obtain data g1 where
    m: "mock_twitter_data L kw g = (Inr data, g1)"
    and r: "results' = dict_set results kw (twitter_entry data)"
    by (auto simp: twitter_try_def get_twitter_data_def store_def
          split: prod.splits sum.splits if_splits)
  show ?thesis using r twitter_entry_range2 [OF assms(1) m] by blast
next
  case False
  with assms(2) obtain data g1 where
    m: "mock_twitter_data L kw g = (Inr data, g1)"
    and r: "results' = dict_set results kw data"
    by (auto simp: twitter_try_def store_def split: prod.splits sum.splits if_splits)
  show ?thesis using r twitter_entry_range1 [OF assms(1) m] by blast
qed

lemma twitter_keyword_stub:
  assumes "random_ok L"
    and "twitter_keyword L (get_twitter_data L) twitter_bearer_token kw s = Inr s'"
  shows "\<exists>data. fst s' = dict_set (fst s) kw data \<and>
           (\<exists>x. num_of (dget data s_tweet_count (PInt 0)) = Some x \<and> 0 \<le> x) \<and>
           (\<exists>x. num_of (dget data s_engagement_rate (PInt 0)) = Some x \<and> 0 \<le> x)"
proof -
  obtain r g1 where t: "twitter_try L (get_twitter_data L) twitter_bearer_token kw (fst s) (snd s) = (r, g1)"
    by (cases "twitter_try L (get_twitter_data L) twitter_bearer_token kw (fst s) (snd s)")
  show ?thesis
  proof (cases r)
    case (Inr results')
    with assms(2) t have "fst s' = results'" by (auto simp: twitter_keyword_def)
    then show ?thesis
      using twitter_try_stub [OF assms(1), of twitter_bearer_token kw "fst s" "snd s" results' g1] t Inr
      by simp
  next
    case (Inl e)
    with assms(2) t obtain data g2 where
      m: "mock_twitter_data L kw g1 = (Inr data, g2)"
      and r: "fst s' = dict_set (fst s) kw data"
      by (auto simp: twitter_keyword_def store_def split: prod.splits sum.splits if_splits)
    show ?thesis using r twitter_entry_range1 [OF assms(1) m] by blast
  qed
qed

lemma analyze_twitter_engagement_range:
  assumes "random_ok L"
    and "analyze_twitter_engagement L keywords twitter_bearer_token g = Inr (td, g')"
  shows "\<forall>kv \<in> set td.
           (\<exists>x. num_of (dget (snd kv) s_tweet_count (PInt 0)) = Some x \<and> 0 \<le> x) \<and>
           (\<exists>x. num_of (dget (snd kv) s_engagement_rate (PInt 0)) = Some x \<and> 0 \<le> x)"
proof -
  from assms(2) obtain ks where
    loop: "for_each (twitter_keyword L (get_twitter_data L) twitter_bearer_token) ks ([], g) = Inr (td, g')"
    by (auto simp: analyze_twitter_engagement_def analyze_twitter_engagement_with_def split: sum.splits)
  let ?Q = "\<lambda>m :: metric. (\<exists>x. num_of (dget m s_tweet_count (PInt 0)) = Some x \<and> 0 \<le> x) \<and>
           (\<exists>x. num_of (dget m s_engagement_rate (PInt 0)) = Some x \<and> 0 \<le> x)"
  let ?P = "\<lambda>s :: metric pydict \<times> 'a. \<forall>kv \<in> set (fst s). ?Q (snd kv)"
  have "?P (td, g')"
  proof (rule for_each_invariant [OF loop, where P = ?P])
    show "?P ([], g)" by simp
  next
    fix kw t t'
    assume p: "?P t"
      and b: "twitter_keyword L (get_twitter_data L) twitter_bearer_token kw t = Inr t'"
    from twitter_keyword_stub [OF assms(1) b] obtain data where
      d: "fst t' = dict_set (fst t) kw data" "?Q data"
      by blast
    show "?P t'"
    proof
      fix kv assume "kv \<in> set (fst t')"
      then have "kv \<in> set (fst t) \<or> snd kv = data"
        using d(1) in_dict_set [of kv "fst t" kw data] by simp
      then show "?Q (snd kv)"
        using p d(2) by auto
    qed
  qed
  then show ?thesis by simp
qed

lemma sentiment_map_get_range: "sentiment_map_get v = Inr x \<Longrightarrow> - 1 \<le> x \<and> x \<le> 1"
  by (auto simp: sentiment_map_get_def split: if_splits pyval.splits)

lemma sum_sentiment_range:
  "sum_sentiment vs = Inr t \<Longrightarrow> - real (length vs) \<le> t \<and> t \<le> real (length vs)"
proof (induction vs arbitrary: t)
  case Nil
  then show ?case by simp
next
  case (Cons v vs)
  from Cons.prems obtain x t' where
    x: "sentiment_map_get v = Inr x" and t': "sum_sentiment vs = Inr t'" and t: "t = x + t'"
    by (auto split: sum.splits)
  show ?case
    using sentiment_map_get_range [OF x] Cons.IH [OF t'] t by simp
qed

lemma average_sentiment_range:
  assumes "average_sentiment d = Inr a"
  shows "- 1 \<le> a \<and> a \<le> 1"
proof (cases "d = []")
  case True
  then show ?thesis using assms by (simp add: average_sentiment_def)
next
  case False
  with assms obtain t where
    t: "sum_sentiment (map (\<lambda>kv. dget (snd kv) s_sentiment (PStr s_neutral)) d) = Inr t"
    and a: "a = t / real (length d)"
    by (auto simp: average_sentiment_def split: sum.splits)
  have n: "0 < real (length d)" using False by simp
  have "- real (length d) \<le> t \<and> t \<le> real (length d)"
    using sum_sentiment_range [OF t] by simp
  then have "- 1 \<le> t / real (length d) \<and> t / real (length d) \<le> 1"
    using n by (simp add: pos_le_divide_eq pos_divide_le_eq)
  then show ?thesis using a by simp
qed

lemma sns_score_of_range:
  assumes "0 \<le> t" and "0 \<le> e" and "- 1 \<le> s" and "s \<le> 1"
  shows "0 \<le> sns_score_of t e s \<and> sns_score_of t e s \<le> 100"
proof -
  have "0 \<le> min 100 (t / 50)" "min 100 (t / 50) \<le> 100" using assms(1) by simp_all
  moreover have "0 \<le> min 100 (e * 10)" "min 100 (e * 10) \<le> 100" using assms(2) by simp_all
  moreover have "0 \<le> (s + 1) * 50" "(s + 1) * 50 \<le> 100" using assms(3,4) by simp_all
  ultimately show ?thesis
    unfolding sns_score_of_def Let_def by linarith
qed


lemma social_genre_range:
  assumes "random_ok L"
    and "social_genre L twitter_bearer_token genre s = Inr s'"
    and "\<forall>kv \<in> set (fst s). 0 \<le> sns_score (snd kv) \<and> sns_score (snd kv) \<le> 100"
  shows "\<forall>kv \<in> set (fst s'). 0 \<le> sns_score (snd kv) \<and> sns_score (snd kv) \<le> 100"
proof (cases "selected genre")
  case None
  then show ?thesis using assms by (simp add: social_genre_def)
next
  case (Some nk)
  obtain genre_name kws where nk: "nk = (genre_name, kws)" by (cases nk)
  from assms(2) Some nk obtain td g' t e a where
    an: "analyze_twitter_engagement L kws twitter_bearer_token (snd s) = Inr (td, g')"
    and t: "average_of (\<lambda>data. dget data s_tweet_count (PInt 0)) td = Inr t"
    and e: "average_of (\<lambda>data. dget data s_engagement_rate (PInt 0)) td = Inr e"
    and a: "average_sentiment td = Inr a"
    and r: "fst s' = dict_set (fst s) genre_name
              \<lparr>social_genre_name = genre_name, sns_analysis = td,
               sns_score = sns_score_of t e a\<rparr>"
    by (auto simp: social_genre_def store_def split: sum.splits prod.splits if_splits)
  note rng = analyze_twitter_engagement_range [OF assms(1) an]
  have "0 \<le> t" using rng by (intro average_of_nonneg [OF _ t]) blast
  moreover have "0 \<le> e" using rng by (intro average_of_nonneg [OF _ e]) blast
  ultimately have "0 \<le> sns_score_of t e a \<and> sns_score_of t e a \<le> 100"
    using average_sentiment_range [OF a] by (simp add: sns_score_of_range)
  then show ?thesis
    using assms(3) r in_dict_set [of _ "fst s" genre_name] by fastforce
qed

lemma analyze_genre_social_range:
  assumes "random_ok L"
    and "analyze_genre_social L genres twitter_bearer_token g = Inr (out, g')"
  shows "\<forall>kv \<in> set out. 0 \<le> sns_score (snd kv) \<and> sns_score (snd kv) \<le> 100"
proof (cases "coerce_genres L genres")
  case None
  then show ?thesis using assms(2) by (simp add: analyze_genre_social_def)
next
  case (Some gs)
  with assms(2) obtain entries where
    loop: "for_each (social_genre L twitter_bearer_token) entries ([], g) = Inr (out, g')"
    by (auto simp: analyze_genre_social_def split: sum.splits)
  let ?P = "\<lambda>s :: social_result pydict \<times> 'a.
     \<forall>kv \<in> set (fst s). 0 \<le> sns_score (snd kv) \<and> sns_score (snd kv) \<le> 100"
  have "?P (out, g')"
    by (rule for_each_invariant [OF loop, where P = ?P]) (simp, rule social_genre_range [OF assms(1)])
  then show ?thesis by simp
qed

lemma mock_search_volume_range:
  assumes "random_ok L"
  shows "500 \<le> fst (mock_search_volume L keyword g) \<and> fst (mock_search_volume L keyword g) \<le> 10000"
  using random_ok_randint [OF assms, of 500 10000 g]
  by (cases "random_randint L 500 10000 g") (simp add: mock_search_volume_def)

lemmas eval_defs =
  coerce_genres_list selected_def genre_fields_def store_def dget_def py_eq_PStr
  key_given_def average_of_def Let_def demo_libs_simps demo_fraction_def
  metric_keys_distinct encodable_def surrogate_def clamp_0_100_def number_def

lemma demo_competition_run:
  "analyze_genre_competition demo_libs (PList [PStr [120]]) None None g =
     Inr (demo_competition_out, 122)"
  by (simp add: eval_defs analyze_genre_competition_def competition_genre_def
       analyze_competition_def analyze_competition_with_def competition_keyword_def
       competition_try_def mock_competition_data_def common_keywords_def py_round_def
       round_half_even_def py_int_def demo_competition_out_def)

lemma demo_social_run:
  "analyze_genre_social demo_libs (PList [PStr [120]]) None g = Inr (demo_social_out, 123)"
  "analyze_genre_social demo_libs (PList [PStr [120]]) (Some []) g = Inr (demo_social_out, 123)"
  by (simp_all add: eval_defs analyze_genre_social_def social_genre_def
       analyze_twitter_engagement_def analyze_twitter_engagement_with_def twitter_keyword_def
       twitter_try_def mock_twitter_data_def common_topics_def py_round_def
       round_half_even_def sentiment_options_def average_sentiment_def sentiment_map_get_def
       sns_score_of_def s_neutral_def s_positive_def s_rather_positive_def demo_social_out_def)

lemma demo_demand_run:
  "analyze_demand demo_libs (PList [PStr [120]]) [] 0 = Inr (demo_demand_out, 1)"
  by (simp add: eval_defs analyze_demand_def demand_genre_def analyze_trends_def
       trends_group_def get_search_volume_def search_volume_keyword_def mock_search_volume_def
       keyword_result_of_def get_or_def demand_score_of_def interest_of_def volume_of_def
       is_rising_def demo_demand_out_def)

text \<open>
  Claim C1 does not hold of the code. The competition score and the SNS score lie in
  \<open>[0, 100]\<close> (the two lemmas \<open>analyze_genre_competition_range\<close> and
  \<open>analyze_genre_social_range\<close> above), but the demand score is computed from the raw
  search volume, which the mock draws from 500 to 10000, and \<^verbatim>\<open>calculate_final_scores\<close>
  does not clamp. The analysis of the payload \<^verbatim>\<open>["x"]\<close>, as the dashboard runs it: the
  demand score is 250, the competition score 100 and the SNS score 15.67, and the total
  is 143.134 (175 without the social analysis), on a scale the dashboard prints as
  \<^verbatim>\<open>/100\<close>.
\<close>

theorem total_score_exceeds_scale:
  "analyze_demand demo_libs (PList [PStr [120]]) [] 0 = Inr (demo_demand_out, 1) \<and>
   map (\<lambda>kv. demand_score (snd kv)) demo_demand_out = [250] \<and>
   run_analysis demo_libs (PList [PStr [120]]) [] [] True initial_session_state 0 =
     Inr (demo_final_state, 123) \<and>
   map (\<lambda>kv. total_score (snd kv)) (final_scores demo_final_state) = [143134 / 1000] \<and>
   (case run_analysis demo_libs (PList [PStr [120]]) [] [] False initial_session_state 0 of
      Inl e \<Rightarrow> None
    | Inr out \<Rightarrow> Some (map (\<lambda>kv. total_score (snd kv)) (final_scores (fst out)))) = Some [175]"
  by (simp add: run_analysis_def demo_demand_run demo_competition_run demo_social_run
        calculate_final_scores_def final_score_of_def initial_session_state_def
        demo_final_state_def py_eq_PStr demo_demand_out_def demo_competition_out_def
        demo_social_out_def)

section \<open>The order and the names of the output\<close>

lemma selected_names_Cons:
  "selected_names (x # xs) =
     (case selected x of None \<Rightarrow> selected_names xs | Some nk \<Rightarrow> fst nk # selected_names xs)"
  by (simp add: selected_names_def map_filter_simps split: option.splits)

lemma selected_names_Nil: "selected_names [] = []"
  by (simp add: selected_names_def map_filter_simps)

lemma for_each_keys:
  assumes "\<And>x t t'. body x t = Inr t' \<Longrightarrow>
             map fst (fst t') =
               (case selected x of None \<Rightarrow> map fst (fst t)
                | Some nk \<Rightarrow> add_key (map fst (fst t)) (fst nk))"
    and "for_each body xs s = Inr s'"
  shows "map fst (fst s') = fold (\<lambda>k ks. add_key ks k) (selected_names xs) (map fst (fst s))"
  using assms(2)
proof (induction xs arbitrary: s)
  case Nil
  then show ?case by (simp add: selected_names_Nil)
next
  case (Cons x xs)
  from Cons.prems obtain t where t: "body x s = Inr t" and r: "for_each body xs t = Inr s'"
    by (auto split: sum.splits)
  show ?case
    using Cons.IH [OF r] assms(1) [OF t]
    by (simp add: selected_names_Cons split: option.splits)
qed

lemma competition_genre_keys:
  assumes "competition_genre L semrush_api_key ubersuggest_api_key x t = Inr t'"
  shows "map fst (fst t') =
           (case selected x of None \<Rightarrow> map fst (fst t)
            | Some nk \<Rightarrow> add_key (map fst (fst t)) (fst nk))"
  using assms
  by (auto simp: competition_genre_def store_def map_fst_dict_set
        split: option.splits sum.splits prod.splits if_splits)

lemma social_genre_keys:
  assumes "social_genre L twitter_bearer_token x t = Inr t'"
  shows "map fst (fst t') =
           (case selected x of None \<Rightarrow> map fst (fst t)
            | Some nk \<Rightarrow> add_key (map fst (fst t)) (fst nk))"
  using assms
  by (auto simp: social_genre_def store_def map_fst_dict_set
        split: option.splits sum.splits prod.splits if_splits)

lemma demand_genre_keys:
  assumes "demand_genre L google_api_key x t = Inr t'"
  shows "map fst (fst t') =
           (case selected x of None \<Rightarrow> map fst (fst t)
            | Some nk \<Rightarrow> add_key (map fst (fst t)) (fst nk))"
  using assms
  by (auto simp: demand_genre_def store_def map_fst_dict_set
        split: option.splits sum.splits prod.splits if_splits)

lemma add_key_distinct: "distinct ks \<Longrightarrow> distinct (add_key ks k)"
  using py_eq_refl [of k] by (auto simp: add_key_def list_ex_iff)

lemma fold_add_key_distinct: "distinct ks \<Longrightarrow> distinct (fold (\<lambda>k ks. add_key ks k) names ks)"
  by (induction names arbitrary: ks) (simp_all add: add_key_distinct)

lemma insertion_order_distinct: "distinct (insertion_order names)"
  by (simp add: insertion_order_def fold_add_key_distinct)

lemma for_each_append:
  "for_each body (xs @ ys) s =
     (case for_each body xs s of Inl e \<Rightarrow> Inl e | Inr t \<Rightarrow> for_each body ys t)"
  by (induction xs arbitrary: s) (simp_all split: sum.splits)

lemma for_each_untouched:
  assumes "\<And>x t t'. body x t = Inr t' \<Longrightarrow>
             (case selected x of None \<Rightarrow> fst t' = fst t
              | Some nk \<Rightarrow> \<exists>r. fst t' = dict_set (fst t) (fst nk) r)"
    and "for_each body xs s = Inr s'"
    and "\<not> list_ex (\<lambda>k. py_eq k n) (selected_names xs)"
  shows "dict_get (fst s') n = dict_get (fst s) n"
  using assms(2,3)
proof (induction xs arbitrary: s)
  case Nil
  then show ?case by simp
next
  case (Cons x xs)
  from Cons.prems(1) obtain t where t: "body x s = Inr t" and r: "for_each body xs t = Inr s'"
    by (auto split: sum.splits)
  have l: "\<not> list_ex (\<lambda>k. py_eq k n) (selected_names xs)"
    using Cons.prems(2) by (simp add: selected_names_Cons split: option.splits)
  have "dict_get (fst t) n = dict_get (fst s) n"
    using assms(1) [OF t] Cons.prems(2)
    by (auto simp: selected_names_Cons dict_get_dict_set split: option.splits)
  with Cons.IH [OF r l] show ?case by simp
qed

text \<open>The loop of an analyzer: the entry of a name holds what the body computes for the
  last selected entry of that name, and the body computes it from the entry and the
  state of the generator alone.\<close>

lemma last_entry_stored:
  assumes step: "\<And>x d g t'. body x (d, g) = Inr t' \<Longrightarrow>
             (case selected x of None \<Rightarrow> t' = (d, g)
              | Some nk \<Rightarrow> \<exists>r. fst t' = dict_set d (fst nk) r \<and>
                               body x ([], g) = Inr ([(fst nk, r)], snd t'))"
    and run: "for_each body (es1 @ e # es2) ([], g) = Inr (out, g')"
    and sel: "selected e = Some (n, kws)"
    and later: "\<not> list_ex (\<lambda>k. py_eq k n) (selected_names es2)"
  shows "\<exists>out1 g1 r g2. for_each body es1 ([], g) = Inr (out1, g1) \<and>
           body e ([], g1) = Inr ([(n, r)], g2) \<and> dict_get out n = Some r"
proof -
  from run obtain out1 g1 where r1: "for_each body es1 ([], g) = Inr (out1, g1)"
      and r2: "for_each body (e # es2) (out1, g1) = Inr (out, g')"
    by (auto simp: for_each_append split: sum.splits)
  from r2 obtain t where t: "body e (out1, g1) = Inr t" and r3: "for_each body es2 t = Inr (out, g')"
    by (auto split: sum.splits)
  from step [OF t] sel obtain r where r: "fst t = dict_set out1 n r"
      and b: "body e ([], g1) = Inr ([(n, r)], snd t)"
    by auto
  have step': "(case selected x of None \<Rightarrow> fst u' = fst u
              | Some nk \<Rightarrow> \<exists>r. fst u' = dict_set (fst u) (fst nk) r)"
    if "body x u = Inr u'" for x u u'
  proof -
    from that have "body x (fst u, snd u) = Inr u'" by simp
    from step [OF this] show ?thesis
      by (cases "selected x") auto
  qed
  have "dict_get (fst (out, g')) n = dict_get (fst t) n"
    using step' r3 later by (rule for_each_untouched)
  then have "dict_get out n = Some r"
    by (simp add: r dict_get_dict_set py_eq_refl)
  with r1 b show ?thesis by blast
qed

lemma competition_genre_step:
  assumes "competition_genre L semrush_api_key ubersuggest_api_key x (d, g) = Inr t'"
  shows "(case selected x of None \<Rightarrow> t' = (d, g)
          | Some nk \<Rightarrow> \<exists>r. fst t' = dict_set d (fst nk) r \<and>
              competition_genre L semrush_api_key ubersuggest_api_key x ([], g) =
                Inr ([(fst nk, r)], snd t'))"
  using assms
  by (auto simp: competition_genre_def store_def
        split: option.splits sum.splits prod.splits if_splits)

lemma social_genre_step:
  assumes "social_genre L twitter_bearer_token x (d, g) = Inr t'"
  shows "(case selected x of None \<Rightarrow> t' = (d, g)
          | Some nk \<Rightarrow> \<exists>r. fst t' = dict_set d (fst nk) r \<and>
              social_genre L twitter_bearer_token x ([], g) = Inr ([(fst nk, r)], snd t'))"
  using assms
  by (auto simp: social_genre_def store_def
        split: option.splits sum.splits prod.splits if_splits)

lemma demand_genre_step:
  assumes "demand_genre L google_api_key x (d, g) = Inr t'"
  shows "(case selected x of None \<Rightarrow> t' = (d, g)
          | Some nk \<Rightarrow> \<exists>r. fst t' = dict_set d (fst nk) r \<and>
              demand_genre L google_api_key x ([], g) = Inr ([(fst nk, r)], snd t'))"
  using assms
  by (auto simp: demand_genre_def store_def
        split: option.splits sum.splits prod.splits if_splits)

text \<open>An analyzer that returns has run its loop over the entries of the payload.\<close>

lemma analyze_demand_loop:
  assumes "analyze_demand L genres google_api_key g = Inr s"
  shows "for_each (demand_genre L google_api_key) (payload_entries L genres) ([], g) = Inr s"
  using assms
  by (auto simp: analyze_demand_def payload_entries_def split: option.splits sum.splits)

lemma analyze_genre_competition_loop:
  assumes "analyze_genre_competition L genres semrush_api_key ubersuggest_api_key g = Inr s"
  shows "for_each (competition_genre L semrush_api_key ubersuggest_api_key)
           (payload_entries L genres) ([], g) = Inr s"
  using assms
  by (auto simp: analyze_genre_competition_def payload_entries_def split: option.splits sum.splits)

lemma analyze_genre_social_loop:
  assumes "analyze_genre_social L genres twitter_bearer_token g = Inr s"
  shows "for_each (social_genre L twitter_bearer_token) (payload_entries L genres) ([], g) = Inr s"
  using assms
  by (auto simp: analyze_genre_social_def payload_entries_def split: option.splits sum.splits)

lemma analyze_demand_list:
  "analyze_demand L (PList es) google_api_key g =
     for_each (demand_genre L google_api_key) es ([], g)"
  by (simp add: analyze_demand_def coerce_genres_list)

lemma analyze_genre_competition_list:
  "analyze_genre_competition L (PList es) semrush_api_key ubersuggest_api_key g =
     for_each (competition_genre L semrush_api_key ubersuggest_api_key) es ([], g)"
  by (simp add: analyze_genre_competition_def coerce_genres_list)

lemma analyze_genre_social_list:
  "analyze_genre_social L (PList es) twitter_bearer_token g =
     for_each (social_genre L twitter_bearer_token) es ([], g)"
  by (simp add: analyze_genre_social_def coerce_genres_list)

lemma for_each_single: "for_each body [x] s = body x s"
  by (simp split: sum.splits)

text \<open>
  Claim C5, as amended. For every payload, with \<open>payload_entries\<close> the entries the loop
  runs over: the mapping each of the three analyzers returns has as its keys the names of
  the entries that pass the two checks, in the order in which each name first occurs, and
  the keys are distinct, so two entries of the same name give one entry of the mapping.
  That entry holds the result of the last of them: where \<open>e\<close> is a selected entry of the
  name \<open>n\<close> and no selected entry after it has that name, the value under \<open>n\<close> is the one
  the analyzer returns for the payload \<open>[e]\<close> alone, in the state of the generator that the
  entries before \<open>e\<close> leave.
\<close>

theorem output_names_in_insertion_order:
  "(analyze_demand L genres google_api_key g = Inr (out_d, g_d) \<longrightarrow>
      map fst out_d = insertion_order (selected_names (payload_entries L genres)) \<and>
      distinct (map fst out_d) \<and>
      (payload_entries L genres = es1 @ e # es2 \<and> selected e = Some (n, kws) \<and>
       \<not> list_ex (\<lambda>k. py_eq k n) (selected_names es2) \<longrightarrow>
         (\<exists>out1 g1 r g2.
            analyze_demand L (PList es1) google_api_key g = Inr (out1, g1) \<and>
            analyze_demand L (PList [e]) google_api_key g1 = Inr ([(n, r)], g2) \<and>
            dict_get out_d n = Some r))) \<and>
   (analyze_genre_competition L genres semrush_api_key ubersuggest_api_key g = Inr (out_c, g_c) \<longrightarrow>
      map fst out_c = insertion_order (selected_names (payload_entries L genres)) \<and>
      distinct (map fst out_c) \<and>
      (payload_entries L genres = es1 @ e # es2 \<and> selected e = Some (n, kws) \<and>
       \<not> list_ex (\<lambda>k. py_eq k n) (selected_names es2) \<longrightarrow>
         (\<exists>out1 g1 r g2.
            analyze_genre_competition L (PList es1) semrush_api_key ubersuggest_api_key g =
              Inr (out1, g1) \<and>
            analyze_genre_competition L (PList [e]) semrush_api_key ubersuggest_api_key g1 =
              Inr ([(n, r)], g2) \<and>
            dict_get out_c n = Some r))) \<and>
   (analyze_genre_social L genres twitter_bearer_token g = Inr (out_s, g_s) \<longrightarrow>
      map fst out_s = insertion_order (selected_names (payload_entries L genres)) \<and>
      distinct (map fst out_s) \<and>
      (payload_entries L genres = es1 @ e # es2 \<and> selected e = Some (n, kws) \<and>
       \<not> list_ex (\<lambda>k. py_eq k n) (selected_names es2) \<longrightarrow>
         (\<exists>out1 g1 r g2.
            analyze_genre_social L (PList es1) twitter_bearer_token g = Inr (out1, g1) \<and>
            analyze_genre_social L (PList [e]) twitter_bearer_token g1 = Inr ([(n, r)], g2) \<and>
            dict_get out_s n = Some r)))"
proof (intro conjI impI)
  assume a: "analyze_demand L genres google_api_key g = Inr (out_d, g_d)"
  note l = analyze_demand_loop [OF a]
  from for_each_keys [OF demand_genre_keys l]
  show k: "map fst out_d = insertion_order (selected_names (payload_entries L genres))"
    by (simp add: insertion_order_def)
  show "distinct (map fst out_d)"
    unfolding k by (rule insertion_order_distinct)
  assume h: "payload_entries L genres = es1 @ e # es2 \<and> selected e = Some (n, kws) \<and>
       \<not> list_ex (\<lambda>k. py_eq k n) (selected_names es2)"
  have r: "for_each (demand_genre L google_api_key) (es1 @ e # es2) ([], g) = Inr (out_d, g_d)"
    using l h by simp
  have s: "selected e = Some (n, kws)" using h by simp
  have n: "\<not> list_ex (\<lambda>k. py_eq k n) (selected_names es2)" using h by simp
  from last_entry_stored [of "demand_genre L google_api_key", OF demand_genre_step r s n]
  show "\<exists>out1 g1 r g2.
            analyze_demand L (PList es1) google_api_key g = Inr (out1, g1) \<and>
            analyze_demand L (PList [e]) google_api_key g1 = Inr ([(n, r)], g2) \<and>
            dict_get out_d n = Some r"
    by (simp only: analyze_demand_list for_each_single)
next
  assume a: "analyze_genre_competition L genres semrush_api_key ubersuggest_api_key g = Inr (out_c, g_c)"
  note l = analyze_genre_competition_loop [OF a]
  from for_each_keys [OF competition_genre_keys l]
  show k: "map fst out_c = insertion_order (selected_names (payload_entries L genres))"
    by (simp add: insertion_order_def)
  show "distinct (map fst out_c)"
    unfolding k by (rule insertion_order_distinct)
  assume h: "payload_entries L genres = es1 @ e # es2 \<and> selected e = Some (n, kws) \<and>
       \<not> list_ex (\<lambda>k. py_eq k n) (selected_names es2)"
  have r: "for_each (competition_genre L semrush_api_key ubersuggest_api_key) (es1 @ e # es2) ([], g) =
      Inr (out_c, g_c)"
    using l h by simp
  have s: "selected e = Some (n, kws)" using h by simp
  have n: "\<not> list_ex (\<lambda>k. py_eq k n) (selected_names es2)" using h by simp
  from last_entry_stored [of "competition_genre L semrush_api_key ubersuggest_api_key",
      OF competition_genre_step r s n]
  show "\<exists>out1 g1 r g2.
            analyze_genre_competition L (PList es1) semrush_api_key ubersuggest_api_key g =
              Inr (out1, g1) \<and>
            analyze_genre_competition L (PList [e]) semrush_api_key ubersuggest_api_key g1 =
              Inr ([(n, r)], g2) \<and>
            dict_get out_c n = Some r"
    by (simp only: analyze_genre_competition_list for_each_single)
next
  assume a: "analyze_genre_social L genres twitter_bearer_token g = Inr (out_s, g_s)"
  note l = analyze_genre_social_loop [OF a]
  from for_each_keys [OF social_genre_keys l]
  show k: "map fst out_s = insertion_order (selected_names (payload_entries L genres))"
    by (simp add: insertion_order_def)
  show "distinct (map fst out_s)"
    unfolding k by (rule insertion_order_distinct)
  assume h: "payload_entries L genres = es1 @ e # es2 \<and> selected e = Some (n, kws) \<and>
       \<not> list_ex (\<lambda>k. py_eq k n) (selected_names es2)"
  have r: "for_each (social_genre L twitter_bearer_token) (es1 @ e # es2) ([], g) = Inr (out_s, g_s)"
    using l h by simp
  have s: "selected e = Some (n, kws)" using h by simp
  have n: "\<not> list_ex (\<lambda>k. py_eq k n) (selected_names es2)" using h by simp
  from last_entry_stored [of "social_genre L twitter_bearer_token", OF social_genre_step r s n]
  show "\<exists>out1 g1 r g2.
            analyze_genre_social L (PList es1) twitter_bearer_token g = Inr (out1, g1) \<and>
            analyze_genre_social L (PList [e]) twitter_bearer_token g1 = Inr ([(n, r)], g2) \<and>
            dict_get out_s n = Some r"
    by (simp only: analyze_genre_social_list for_each_single)
qed

lemmas demo_entry_defs = demo_three_entries_def demo_entry_x_def demo_entry_y_def
  s_genre_name_def s_keywords_def

lemma demo_three_competition:
  "analysed_keywords (analyze_genre_competition demo_libs (PList demo_three_entries) None None 0) =
     Some [(PStr [97], [PStr [121]]), (PStr [98], [PStr [98]])]"
    by (simp add: demo_entry_defs analysed_keywords_def eval_defs
       analyze_genre_competition_def competition_genre_def
       analyze_competition_def analyze_competition_with_def competition_keyword_def
       competition_try_def mock_competition_data_def common_keywords_def)

lemma demo_last_competition:
  "\<exists>r g2. analyze_genre_competition demo_libs (PList [demo_entry_y]) None None g =
             Inr ([(PStr [97], r)], g2) \<and>
           map fst (keyword_competition r) = [PStr [121]]"
    by (simp add: demo_entry_defs eval_defs
       analyze_genre_competition_def competition_genre_def
       analyze_competition_def analyze_competition_with_def competition_keyword_def
       competition_try_def mock_competition_data_def common_keywords_def)

lemma demo_three_demand:
  "names_of (analyze_demand demo_libs (PList demo_three_entries) [] 0) = Some [PStr [97], PStr [98]]"
    by (simp add: demo_entry_defs names_of_def eval_defs
       analyze_demand_def demand_genre_def analyze_trends_def
       trends_group_def get_search_volume_def search_volume_keyword_def mock_search_volume_def
       keyword_result_of_def get_or_def)

lemma demo_last_demand:
  "\<exists>r g2. analyze_demand demo_libs (PList [demo_entry_y]) [] g = Inr ([(PStr [97], r)], g2) \<and>
           map fst (keyword_analysis r) = [PStr [121]]"
    by (simp add: demo_entry_defs eval_defs
       analyze_demand_def demand_genre_def analyze_trends_def
       trends_group_def get_search_volume_def search_volume_keyword_def mock_search_volume_def
       keyword_result_of_def get_or_def)

lemma demo_three_social:
  "names_of (analyze_genre_social demo_libs (PList demo_three_entries) None 0) = Some [PStr [97], PStr [98]]"
    by (simp add: demo_entry_defs names_of_def eval_defs
       analyze_genre_social_def social_genre_def
       analyze_twitter_engagement_def analyze_twitter_engagement_with_def twitter_keyword_def
       twitter_try_def mock_twitter_data_def common_topics_def
       sentiment_options_def average_sentiment_def sentiment_map_get_def
       s_neutral_def s_positive_def s_rather_positive_def s_rather_negative_def s_negative_def)

lemma demo_last_social:
  "\<exists>r g2. analyze_genre_social demo_libs (PList [demo_entry_y]) None g = Inr ([(PStr [97], r)], g2) \<and>
           map fst (sns_analysis r) = [PStr [121]]"
    by (simp add: demo_entry_defs eval_defs
       analyze_genre_social_def social_genre_def
       analyze_twitter_engagement_def analyze_twitter_engagement_with_def twitter_keyword_def
       twitter_try_def mock_twitter_data_def common_topics_def
       sentiment_options_def average_sentiment_def sentiment_map_get_def
       s_neutral_def s_positive_def s_rather_positive_def s_rather_negative_def s_negative_def)

lemma demo_three_names:
  "payload_entries demo_libs (PList demo_three_entries) = [demo_entry_x, PStr [98]] @ demo_entry_y # []"
  "selected demo_entry_y = Some (PStr [97], PList [PStr [121]])"
  "\<not> list_ex (\<lambda>k. py_eq k (PStr [97])) (selected_names [])"
  "insertion_order (selected_names (payload_entries demo_libs (PList demo_three_entries))) =
     [PStr [97], PStr [98]]"
  by (simp_all add: payload_entries_def demo_entry_defs eval_defs selected_names_def
       map_filter_simps insertion_order_def add_key_def)

theorem output_names_in_insertion_order_witness:
  "payload_entries demo_libs (PList demo_three_entries) =
     [demo_entry_x, PStr [98]] @ demo_entry_y # [] \<and>
   selected demo_entry_y = Some (PStr [97], PList [PStr [121]]) \<and>
   \<not> list_ex (\<lambda>k. py_eq k (PStr [97])) (selected_names []) \<and>
   (\<exists>out g'. analyze_demand demo_libs (PList demo_three_entries) [] 0 = Inr (out, g') \<and>
      map fst out = [PStr [97], PStr [98]] \<and>
      (\<exists>out1 g1 r g2.
         analyze_demand demo_libs (PList [demo_entry_x, PStr [98]]) [] 0 = Inr (out1, g1) \<and>
         analyze_demand demo_libs (PList [demo_entry_y]) [] g1 = Inr ([(PStr [97], r)], g2) \<and>
         dict_get out (PStr [97]) = Some r \<and>
         map fst (keyword_analysis r) = [PStr [121]])) \<and>
   (\<exists>out g'. analyze_genre_competition demo_libs (PList demo_three_entries) None None 0 =
        Inr (out, g') \<and>
      map fst out = [PStr [97], PStr [98]] \<and>
      (\<exists>out1 g1 r g2.
         analyze_genre_competition demo_libs (PList [demo_entry_x, PStr [98]]) None None 0 =
           Inr (out1, g1) \<and>
         analyze_genre_competition demo_libs (PList [demo_entry_y]) None None g1 =
           Inr ([(PStr [97], r)], g2) \<and>
         dict_get out (PStr [97]) = Some r \<and>
         map fst (keyword_competition r) = [PStr [121]])) \<and>
   (\<exists>out g'. analyze_genre_social demo_libs (PList demo_three_entries) None 0 = Inr (out, g') \<and>
      map fst out = [PStr [97], PStr [98]] \<and>
      (\<exists>out1 g1 r g2.
         analyze_genre_social demo_libs (PList [demo_entry_x, PStr [98]]) None 0 = Inr (out1, g1) \<and>
         analyze_genre_social demo_libs (PList [demo_entry_y]) None g1 = Inr ([(PStr [97], r)], g2) \<and>
         dict_get out (PStr [97]) = Some r \<and>
         map fst (sns_analysis r) = [PStr [121]]))"
proof -
  note h = demo_three_names(1) demo_three_names(2) demo_three_names(3)
  obtain out_d g_d where d: "analyze_demand demo_libs (PList demo_three_entries) [] 0 = Inr (out_d, g_d)"
    using demo_three_demand by (auto simp: names_of_def split: sum.splits)
  obtain out_c g_c where
    c: "analyze_genre_competition demo_libs (PList demo_three_entries) None None 0 = Inr (out_c, g_c)"
    using demo_three_competition by (auto simp: analysed_keywords_def split: sum.splits)
  obtain out_s g_s where
    s: "analyze_genre_social demo_libs (PList demo_three_entries) None 0 = Inr (out_s, g_s)"
    using demo_three_social by (auto simp: names_of_def split: sum.splits)
  note t = output_names_in_insertion_order [of demo_libs "PList demo_three_entries" "[]" 0
      out_d g_d "[demo_entry_x, PStr [98]]" demo_entry_y "[]" "PStr [97]" "PList [PStr [121]]"
      None None out_c g_c None out_s g_s]
  have kd: "map fst out_d = [PStr [97], PStr [98]]"
    using t d by (simp add: demo_three_names(4))
  have kc: "map fst out_c = [PStr [97], PStr [98]]"
    using t c by (simp add: demo_three_names(4))
  have ks: "map fst out_s = [PStr [97], PStr [98]]"
    using t s by (simp add: demo_three_names(4))
  have "\<exists>out1 g1 r g2.
         analyze_demand demo_libs (PList [demo_entry_x, PStr [98]]) [] 0 = Inr (out1, g1) \<and>
         analyze_demand demo_libs (PList [demo_entry_y]) [] g1 = Inr ([(PStr [97], r)], g2) \<and>
         dict_get out_d (PStr [97]) = Some r"
    using t d h by blast
  then obtain out1 g1 r g2 where
    d1: "analyze_demand demo_libs (PList [demo_entry_x, PStr [98]]) [] 0 = Inr (out1, g1)" and
    d2: "analyze_demand demo_libs (PList [demo_entry_y]) [] g1 = Inr ([(PStr [97], r)], g2)" and
    d3: "dict_get out_d (PStr [97]) = Some r"
    by blast
  have d4: "map fst (keyword_analysis r) = [PStr [121]]"
    using demo_last_demand [of g1] d2 by auto
  have pd: "\<exists>out g'. analyze_demand demo_libs (PList demo_three_entries) [] 0 = Inr (out, g') \<and>
      map fst out = [PStr [97], PStr [98]] \<and>
      (\<exists>out1 g1 r g2.
         analyze_demand demo_libs (PList [demo_entry_x, PStr [98]]) [] 0 = Inr (out1, g1) \<and>
         analyze_demand demo_libs (PList [demo_entry_y]) [] g1 = Inr ([(PStr [97], r)], g2) \<and>
         dict_get out (PStr [97]) = Some r \<and>
         map fst (keyword_analysis r) = [PStr [121]])"
    by (intro exI conjI) (rule d kd d1 d2 d3 d4)+
  have "\<exists>out1 g1 r g2.
         analyze_genre_competition demo_libs (PList [demo_entry_x, PStr [98]]) None None 0 =
           Inr (out1, g1) \<and>
         analyze_genre_competition demo_libs (PList [demo_entry_y]) None None g1 =
           Inr ([(PStr [97], r)], g2) \<and>
         dict_get out_c (PStr [97]) = Some r"
    using t c h by blast
  then obtain out1 g1 r g2 where
    c1: "analyze_genre_competition demo_libs (PList [demo_entry_x, PStr [98]]) None None 0 =
           Inr (out1, g1)" and
    c2: "analyze_genre_competition demo_libs (PList [demo_entry_y]) None None g1 =
           Inr ([(PStr [97], r)], g2)" and
    c3: "dict_get out_c (PStr [97]) = Some r"
    by blast
  have c4: "map fst (keyword_competition r) = [PStr [121]]"
    using demo_last_competition [of g1] c2 by auto
  have pc: "\<exists>out g'. analyze_genre_competition demo_libs (PList demo_three_entries) None None 0 =
        Inr (out, g') \<and>
      map fst out = [PStr [97], PStr [98]] \<and>
      (\<exists>out1 g1 r g2.
         analyze_genre_competition demo_libs (PList [demo_entry_x, PStr [98]]) None None 0 =
           Inr (out1, g1) \<and>
         analyze_genre_competition demo_libs (PList [demo_entry_y]) None None g1 =
           Inr ([(PStr [97], r)], g2) \<and>
         dict_get out (PStr [97]) = Some r \<and>
         map fst (keyword_competition r) = [PStr [121]])"
    by (intro exI conjI) (rule c kc c1 c2 c3 c4)+
  have "\<exists>out1 g1 r g2.
         analyze_genre_social demo_libs (PList [demo_entry_x, PStr [98]]) None 0 = Inr (out1, g1) \<and>
         analyze_genre_social demo_libs (PList [demo_entry_y]) None g1 = Inr ([(PStr [97], r)], g2) \<and>
         dict_get out_s (PStr [97]) = Some r"
    using t s h by blast
  then obtain out1 g1 r g2 where
    s1: "analyze_genre_social demo_libs (PList [demo_entry_x, PStr [98]]) None 0 = Inr (out1, g1)" and
    s2: "analyze_genre_social demo_libs (PList [demo_entry_y]) None g1 = Inr ([(PStr [97], r)], g2)" and
    s3: "dict_get out_s (PStr [97]) = Some r"
    by blast
  have s4: "map fst (sns_analysis r) = [PStr [121]]"
    using demo_last_social [of g1] s2 by auto
  have ps: "\<exists>out g'. analyze_genre_social demo_libs (PList demo_three_entries) None 0 = Inr (out, g') \<and>
      map fst out = [PStr [97], PStr [98]] \<and>
      (\<exists>out1 g1 r g2.
         analyze_genre_social demo_libs (PList [demo_entry_x, PStr [98]]) None 0 = Inr (out1, g1) \<and>
         analyze_genre_social demo_libs (PList [demo_entry_y]) None g1 = Inr ([(PStr [97], r)], g2) \<and>
         dict_get out (PStr [97]) = Some r \<and>
         map fst (sns_analysis r) = [PStr [121]])"
    by (intro exI conjI) (rule s ks s1 s2 s3 s4)+
  show ?thesis
    by (rule conjI [OF h(1) conjI [OF h(2) conjI [OF h(3) conjI [OF pd conjI [OF pc ps]]]]])
qed

text \<open>
  Claim C5, as stated, fails. Two entries named \<^verbatim>\<open>"a"\<close>, the first with the keyword \<^verbatim>\<open>"x"\<close> and
  the second with the keyword \<^verbatim>\<open>"y"\<close>, both pass the checks, and each analyzer returns a
  mapping with the single key \<^verbatim>\<open>"a"\<close>; in the competition analysis its entry holds the
  keyword of the second entry only.
\<close>

theorem output_names_in_insertion_order_counterexample:
  "selected_names demo_duplicate_entries = [PStr [97], PStr [97]] \<and>
   names_of (analyze_demand demo_libs (PList demo_duplicate_entries) [] 0) = Some [PStr [97]] \<and>
   names_of (analyze_genre_competition demo_libs (PList demo_duplicate_entries) None None 0) =
     Some [PStr [97]] \<and>
   names_of (analyze_genre_social demo_libs (PList demo_duplicate_entries) None 0) =
     Some [PStr [97]] \<and>
   analysed_keywords (analyze_genre_competition demo_libs (PList demo_duplicate_entries) None None 0) =
     Some [(PStr [97], [PStr [121]])]"
proof -
  have n: "selected_names demo_duplicate_entries = [PStr [97], PStr [97]]"
    by (simp add: demo_duplicate_entries_def selected_names_def map_filter_simps eval_defs
          s_genre_name_def s_keywords_def)
  have d: "names_of (analyze_demand demo_libs (PList demo_duplicate_entries) [] 0) = Some [PStr [97]]"
    by (simp add: demo_duplicate_entries_def names_of_def eval_defs s_genre_name_def s_keywords_def
       analyze_demand_def demand_genre_def analyze_trends_def
       trends_group_def get_search_volume_def search_volume_keyword_def mock_search_volume_def
       keyword_result_of_def get_or_def)
  have c: "analysed_keywords (analyze_genre_competition demo_libs (PList demo_duplicate_entries) None None 0) =
     Some [(PStr [97], [PStr [121]])]"
    by (simp add: demo_duplicate_entries_def analysed_keywords_def eval_defs s_genre_name_def s_keywords_def
       analyze_genre_competition_def competition_genre_def
       analyze_competition_def analyze_competition_with_def competition_keyword_def
       competition_try_def mock_competition_data_def common_keywords_def)
  have c': "names_of (analyze_genre_competition demo_libs (PList demo_duplicate_entries) None None 0) =
     Some [PStr [97]]"
    using c by (auto simp: analysed_keywords_def names_of_def split: sum.splits)
  have s: "names_of (analyze_genre_social demo_libs (PList demo_duplicate_entries) None 0) =
     Some [PStr [97]]"
    by (simp add: demo_duplicate_entries_def names_of_def eval_defs s_genre_name_def s_keywords_def
       analyze_genre_social_def social_genre_def
       analyze_twitter_engagement_def analyze_twitter_engagement_with_def twitter_keyword_def
       twitter_try_def mock_twitter_data_def common_topics_def
       sentiment_options_def average_sentiment_def sentiment_map_get_def
       s_neutral_def s_positive_def s_rather_positive_def s_rather_negative_def s_negative_def)
  show ?thesis using n d c c' s by simp
qed

section \<open>Entries without a name or without keywords\<close>

lemma selected_truthy: "selected genre = Some (n, kws) \<Longrightarrow> truthy n \<and> truthy kws"
  by (auto simp: selected_def split: option.splits if_splits)

lemma truthy_iter_nonempty: "truthy kws \<Longrightarrow> py_iter kws = Inr ks \<Longrightarrow> ks \<noteq> []"
  by (cases kws) auto

lemma truthy_not_empty_string: "truthy n \<Longrightarrow> n \<noteq> PStr []"
  by auto

lemma dict_set_nonempty: "dict_set d k v \<noteq> []"
  by (cases d) (auto split: if_splits)

lemma in_dict_set_fst: "kv \<in> set (dict_set d k v) \<Longrightarrow> fst kv \<in> fst ` set d \<or> fst kv = k"
  by (induction d) (auto split: if_splits)

lemma for_each_nonempty:
  assumes "\<And>x t t'. body x t = Inr t' \<Longrightarrow> fst t' \<noteq> []"
    and "for_each body xs s = Inr s'" and "xs \<noteq> []"
  shows "fst s' \<noteq> []"
proof -
  obtain x xs' where xs: "xs = x # xs'" using assms(3) by (cases xs) auto
  with assms(2) obtain t where t: "body x s = Inr t" and r: "for_each body xs' t = Inr s'"
    by (auto split: sum.splits)
  have "fst t \<noteq> []" using assms(1) [OF t] .
  with r show ?thesis
    by (rule for_each_invariant [where P = "\<lambda>s. fst s \<noteq> []"]) (rule assms(1))
qed

lemma competition_keyword_nonempty:
  "competition_keyword L semrush ubersuggest semrush_api_key ubersuggest_api_key kw s = Inr s' \<Longrightarrow>
   fst s' \<noteq> []"
  by (auto simp: competition_keyword_def competition_try_def store_def dict_set_nonempty
        split: prod.splits sum.splits if_splits)

lemma twitter_keyword_nonempty:
  "twitter_keyword L twitter twitter_bearer_token kw s = Inr s' \<Longrightarrow> fst s' \<noteq> []"
  by (auto simp: twitter_keyword_def twitter_try_def store_def dict_set_nonempty
        split: prod.splits sum.splits if_splits)

lemma analyze_competition_nonempty:
  assumes "analyze_competition L kws semrush_api_key ubersuggest_api_key g = Inr (cd, g')"
    and "truthy kws"
  shows "cd \<noteq> []"
proof -
  from assms(1) obtain ks where k: "py_iter kws = Inr ks"
    and loop: "for_each (competition_keyword L (get_semrush_data L) (get_ubersuggest_data L)
             semrush_api_key ubersuggest_api_key) ks ([], g) = Inr (cd, g')"
    by (auto simp: analyze_competition_def analyze_competition_with_def split: sum.splits)
  have "fst (cd, g') \<noteq> []"
    using competition_keyword_nonempty loop truthy_iter_nonempty [OF assms(2) k]
    by (rule for_each_nonempty)
  then show ?thesis by simp
qed

lemma analyze_twitter_engagement_nonempty:
  assumes "analyze_twitter_engagement L kws twitter_bearer_token g = Inr (td, g')"
    and "truthy kws"
  shows "td \<noteq> []"
proof -
  from assms(1) obtain ks where k: "py_iter kws = Inr ks"
    and loop: "for_each (twitter_keyword L (get_twitter_data L) twitter_bearer_token) ks ([], g) = Inr (td, g')"
    by (auto simp: analyze_twitter_engagement_def analyze_twitter_engagement_with_def split: sum.splits)
  have "fst (td, g') \<noteq> []"
    using twitter_keyword_nonempty loop truthy_iter_nonempty [OF assms(2) k]
    by (rule for_each_nonempty)
  then show ?thesis by simp
qed

lemma keyword_analysis_nonempty:
  assumes "for_each (keyword_result_of trends_data search_volume) ks [] = Inr analysis"
    and "ks \<noteq> []"
  shows "analysis \<noteq> []"
proof -
  obtain x xs' where xs: "ks = x # xs'" using assms(2) by (cases ks) auto
  with assms(1) obtain t where t: "keyword_result_of trends_data search_volume x [] = Inr t"
    and r: "for_each (keyword_result_of trends_data search_volume) xs' t = Inr analysis"
    by (auto split: sum.splits)
  have step: "keyword_result_of trends_data search_volume y u = Inr u' \<Longrightarrow> u' \<noteq> []" for y u u'
    by (auto simp: keyword_result_of_def store_def dict_set_nonempty split: sum.splits if_splits)
  have "t \<noteq> []" using step [OF t] .
  with r show ?thesis
    by (rule for_each_invariant [where P = "\<lambda>s. s \<noteq> []"]) (rule step)
qed


lemma stored_entry_kept:
  assumes "\<forall>kv \<in> set d. truthy (fst kv) \<and> Q (snd kv)"
    and "truthy n" and "Q r"
  shows "\<forall>kv \<in> set (dict_set d n r). truthy (fst kv) \<and> Q (snd kv)"
proof
  fix kv assume kv: "kv \<in> set (dict_set d n r)"
  have "fst kv \<in> fst ` set d \<or> fst kv = n" using kv by (rule in_dict_set_fst)
  then have "truthy (fst kv)" using assms(1,2) by auto
  moreover have "kv \<in> set d \<or> snd kv = r" using kv by (rule in_dict_set)
  then have "Q (snd kv)" using assms(1,3) by auto
  ultimately show "truthy (fst kv) \<and> Q (snd kv)" by simp
qed

lemma competition_genre_kept:
  assumes "competition_genre L semrush_api_key ubersuggest_api_key genre s = Inr s'"
    and "\<forall>kv \<in> set (fst s). truthy (fst kv) \<and> keyword_competition (snd kv) \<noteq> []"
  shows "\<forall>kv \<in> set (fst s'). truthy (fst kv) \<and> keyword_competition (snd kv) \<noteq> []"
proof (cases "selected genre")
  case None
  then show ?thesis using assms by (simp add: competition_genre_def)
next
  case (Some nk)
  obtain n kws where nk: "nk = (n, kws)" by (cases nk)
  from assms(1) Some nk obtain cd g' sc where
    a: "analyze_competition L kws semrush_api_key ubersuggest_api_key (snd s) = Inr (cd, g')"
    and r: "fst s' = dict_set (fst s) n
              \<lparr>competition_genre_name = n, keyword_competition = cd, ease_score = sc\<rparr>"
    by (auto simp: competition_genre_def store_def split: sum.splits prod.splits if_splits)
  have t: "truthy n" "truthy kws" using selected_truthy Some nk by auto
  have "cd \<noteq> []" using a t(2) by (rule analyze_competition_nonempty)
  then show ?thesis
    using stored_entry_kept [OF assms(2) t(1),
        where r = "\<lparr>competition_genre_name = n, keyword_competition = cd, ease_score = sc\<rparr>"] r
    by simp
qed

lemma social_genre_kept:
  assumes "social_genre L twitter_bearer_token genre s = Inr s'"
    and "\<forall>kv \<in> set (fst s). truthy (fst kv) \<and> sns_analysis (snd kv) \<noteq> []"
  shows "\<forall>kv \<in> set (fst s'). truthy (fst kv) \<and> sns_analysis (snd kv) \<noteq> []"
proof (cases "selected genre")
  case None
  then show ?thesis using assms by (simp add: social_genre_def)
next
  case (Some nk)
  obtain n kws where nk: "nk = (n, kws)" by (cases nk)
  from assms(1) Some nk obtain td g' sc where
    a: "analyze_twitter_engagement L kws twitter_bearer_token (snd s) = Inr (td, g')"
    and r: "fst s' = dict_set (fst s) n
              \<lparr>social_genre_name = n, sns_analysis = td, sns_score = sc\<rparr>"
    by (auto simp: social_genre_def store_def split: sum.splits prod.splits if_splits)
  have t: "truthy n" "truthy kws" using selected_truthy Some nk by auto
  have "td \<noteq> []" using a t(2) by (rule analyze_twitter_engagement_nonempty)
  then show ?thesis
    using stored_entry_kept [OF assms(2) t(1),
        where r = "\<lparr>social_genre_name = n, sns_analysis = td, sns_score = sc\<rparr>"] r
    by simp
qed

lemma demand_genre_kept:
  assumes "demand_genre L google_api_key genre s = Inr s'"
    and "\<forall>kv \<in> set (fst s). truthy (fst kv) \<and> keyword_analysis (snd kv) \<noteq> []"
  shows "\<forall>kv \<in> set (fst s'). truthy (fst kv) \<and> keyword_analysis (snd kv) \<noteq> []"
proof (cases "selected genre")
  case None
  then show ?thesis using assms by (simp add: demand_genre_def)
next
  case (Some nk)
  obtain n kws where nk: "nk = (n, kws)" by (cases nk)
  from assms(1) Some nk obtain td sv ks analysis sc where
    k: "py_iter kws = Inr ks"
    and a: "for_each (keyword_result_of td sv) ks [] = Inr analysis"
    and r: "fst s' = dict_set (fst s) n
              \<lparr>demand_genre_name = n, keyword_analysis = analysis, demand_score = sc\<rparr>"
    by (auto simp: demand_genre_def store_def split: sum.splits prod.splits if_splits)
  have t: "truthy n" "truthy kws" using selected_truthy Some nk by auto
  have "analysis \<noteq> []"
    using a truthy_iter_nonempty [OF t(2) k] by (rule keyword_analysis_nonempty)
  then show ?thesis
    using stored_entry_kept [OF assms(2) t(1),
        where r = "\<lparr>demand_genre_name = n, keyword_analysis = analysis, demand_score = sc\<rparr>"] r
    by simp
qed

lemma not_selected:
  "genre_fields genre = Some (n, kws) \<Longrightarrow> n = PStr [] \<or> kws = PList [] \<Longrightarrow> selected genre = None"
  by (auto simp: selected_def)

text \<open>
  Claim C9. In the mapping each of the three analyzers returns, no key is the empty string
  and every entry holds the analysis of at least one keyword. An entry of the payload whose
  name is the empty string or whose keyword list is empty is dropped: the loop body of
  each analyzer leaves the results (and the generator) as they are.
\<close>

theorem empty_entries_dropped:
  "(analyze_demand L genres google_api_key g = Inr (out_d, g_d) \<longrightarrow>
      (\<forall>kv \<in> set out_d. fst kv \<noteq> PStr [] \<and> keyword_analysis (snd kv) \<noteq> [])) \<and>
   (analyze_genre_competition L genres semrush_api_key ubersuggest_api_key g = Inr (out_c, g_c) \<longrightarrow>
      (\<forall>kv \<in> set out_c. fst kv \<noteq> PStr [] \<and> keyword_competition (snd kv) \<noteq> [])) \<and>
   (analyze_genre_social L genres twitter_bearer_token g = Inr (out_s, g_s) \<longrightarrow>
      (\<forall>kv \<in> set out_s. fst kv \<noteq> PStr [] \<and> sns_analysis (snd kv) \<noteq> [])) \<and>
   (genre_fields genre = Some (n, kws) \<and> (n = PStr [] \<or> kws = PList []) \<longrightarrow>
      demand_genre L google_api_key genre sd = Inr sd \<and>
      competition_genre L semrush_api_key ubersuggest_api_key genre sc = Inr sc \<and>
      social_genre L twitter_bearer_token genre ss = Inr ss)"
proof (intro conjI impI)
  assume a: "analyze_demand L genres google_api_key g = Inr (out_d, g_d)"
  let ?P = "\<lambda>s :: demand_result pydict \<times> 'a.
     \<forall>kv \<in> set (fst s). truthy (fst kv) \<and> keyword_analysis (snd kv) \<noteq> []"
  have "?P (out_d, g_d)"
  proof (cases "coerce_genres L genres")
    case None
    then show ?thesis using a by (simp add: analyze_demand_def)
  next
    case (Some gs)
    with a obtain entries where
      loop: "for_each (demand_genre L google_api_key) entries ([], g) = Inr (out_d, g_d)"
      by (auto simp: analyze_demand_def split: sum.splits)
    show ?thesis
      by (rule for_each_invariant [OF loop, where P = ?P]) (simp, rule demand_genre_kept)
  qed
  then show "\<forall>kv \<in> set out_d. fst kv \<noteq> PStr [] \<and> keyword_analysis (snd kv) \<noteq> []"
    by auto
next
  assume a: "analyze_genre_competition L genres semrush_api_key ubersuggest_api_key g = Inr (out_c, g_c)"
  let ?P = "\<lambda>s :: competition_result pydict \<times> 'a.
     \<forall>kv \<in> set (fst s). truthy (fst kv) \<and> keyword_competition (snd kv) \<noteq> []"
  have "?P (out_c, g_c)"
  proof (cases "coerce_genres L genres")
    case None
    then show ?thesis using a by (simp add: analyze_genre_competition_def)
  next
    case (Some gs)
    with a obtain entries where
      loop: "for_each (competition_genre L semrush_api_key ubersuggest_api_key) entries ([], g) = Inr (out_c, g_c)"
      by (auto simp: analyze_genre_competition_def split: sum.splits)
    show ?thesis
      by (rule for_each_invariant [OF loop, where P = ?P]) (simp, rule competition_genre_kept)
  qed
  then show "\<forall>kv \<in> set out_c. fst kv \<noteq> PStr [] \<and> keyword_competition (snd kv) \<noteq> []"
    by auto
next
  assume a: "analyze_genre_social L genres twitter_bearer_token g = Inr (out_s, g_s)"
  let ?P = "\<lambda>s :: social_result pydict \<times> 'a.
     \<forall>kv \<in> set (fst s). truthy (fst kv) \<and> sns_analysis (snd kv) \<noteq> []"
  have "?P (out_s, g_s)"
  proof (cases "coerce_genres L genres")
    case None
    then show ?thesis using a by (simp add: analyze_genre_social_def)
  next
    case (Some gs)
    with a obtain entries where
      loop: "for_each (social_genre L twitter_bearer_token) entries ([], g) = Inr (out_s, g_s)"
      by (auto simp: analyze_genre_social_def split: sum.splits)
    show ?thesis
      by (rule for_each_invariant [OF loop, where P = ?P]) (simp, rule social_genre_kept)
  qed
  then show "\<forall>kv \<in> set out_s. fst kv \<noteq> PStr [] \<and> sns_analysis (snd kv) \<noteq> []"
    by auto
next
  assume "genre_fields genre = Some (n, kws) \<and> (n = PStr [] \<or> kws = PList [])"
  then have "selected genre = None" using not_selected by blast
  then show "demand_genre L google_api_key genre sd = Inr sd"
    "competition_genre L semrush_api_key ubersuggest_api_key genre sc = Inr sc"
    "social_genre L twitter_bearer_token genre ss = Inr ss"
    by (simp_all add: demand_genre_def competition_genre_def social_genre_def)
qed

theorem empty_entries_dropped_witness:
  "analyze_demand demo_libs (PList [PStr [120]]) [] 0 = Inr (demo_demand_out, 1) \<and>
   list_all (\<lambda>kv. fst kv \<noteq> PStr [] \<and> keyword_analysis (snd kv) \<noteq> []) demo_demand_out \<and>
   analyze_genre_competition demo_libs (PList [PStr [120]]) None None 0 =
     Inr (demo_competition_out, 122) \<and>
   list_all (\<lambda>kv. fst kv \<noteq> PStr [] \<and> keyword_competition (snd kv) \<noteq> []) demo_competition_out \<and>
   analyze_genre_social demo_libs (PList [PStr [120]]) None 0 = Inr (demo_social_out, 123) \<and>
   list_all (\<lambda>kv. fst kv \<noteq> PStr [] \<and> sns_analysis (snd kv) \<noteq> []) demo_social_out \<and>
   genre_fields (PDict [(PStr s_genre_name, PStr []), (PStr s_keywords, PList [PStr [120]])]) =
     Some (PStr [], PList [PStr [120]]) \<and>
   demand_genre demo_libs []
     (PDict [(PStr s_genre_name, PStr []), (PStr s_keywords, PList [PStr [120]])])
     (demo_demand_out, 7) = Inr (demo_demand_out, 7) \<and>
   competition_genre demo_libs None None
     (PDict [(PStr s_genre_name, PStr []), (PStr s_keywords, PList [PStr [120]])])
     (demo_competition_out, 7) = Inr (demo_competition_out, 7) \<and>
   social_genre demo_libs None
     (PDict [(PStr s_genre_name, PStr []), (PStr s_keywords, PList [PStr [120]])])
     (demo_social_out, 7) = Inr (demo_social_out, 7)"
proof -
  note t = empty_entries_dropped [of demo_libs "PList [PStr [120]]" "[]" 0 demo_demand_out 1
      None None demo_competition_out 122 None demo_social_out 123
      "PDict [(PStr s_genre_name, PStr []), (PStr s_keywords, PList [PStr [120]])]"
      "PStr []" "PList [PStr [120]]" "(demo_demand_out, 7)" "(demo_competition_out, 7)"
      "(demo_social_out, 7)"]
  have f: "genre_fields (PDict [(PStr s_genre_name, PStr []), (PStr s_keywords, PList [PStr [120]])]) =
     Some (PStr [], PList [PStr [120]])"
    by (simp add: genre_fields_def dget_def py_eq_PStr s_genre_name_def s_keywords_def)
  show ?thesis
    using t f demo_demand_run demo_competition_run demo_social_run
    by (simp add: list_all_iff)
qed

section \<open>A provider that fails\<close>

text \<open>The mock data raise on a keyword or not, whatever the state of the generator.\<close>

lemma mock_competition_data_raises:
  assumes "fst (mock_competition_data L kw g0) = Inl e"
  shows "mock_competition_data L kw g = (Inl e, g)"
  using assms
  by (auto simp: mock_competition_data_def Let_def split: pyval.splits if_splits prod.splits)

lemma mock_twitter_data_raises:
  assumes "fst (mock_twitter_data L kw g0) = Inl e"
  shows "mock_twitter_data L kw g = (Inl e, g)"
  using assms
  by (auto simp: mock_twitter_data_def Let_def split: pyval.splits if_splits prod.splits)

text \<open>The handler calls the mock data again, outside any \<^verbatim>\<open>try\<close>.\<close>

lemma competition_keyword_raises:
  assumes "\<And>g. mock_competition_data L kw g = (Inl e, g)"
  shows "competition_keyword L (get_semrush_data L) (get_ubersuggest_data L)
           semrush_api_key ubersuggest_api_key kw s = Inl e"
  by (simp add: competition_keyword_def competition_try_def get_semrush_data_def
        get_ubersuggest_data_def assms)

lemma twitter_keyword_raises:
  assumes "\<And>g. mock_twitter_data L kw g = (Inl e, g)"
  shows "twitter_keyword L (get_twitter_data L) twitter_bearer_token kw s = Inl e"
  by (simp add: twitter_keyword_def twitter_try_def get_twitter_data_def assms)

lemma for_each_raises:
  assumes "x \<in> set xs" and "\<And>s. body x s = Inl e"
  shows "\<exists>e'. for_each body xs s = Inl e'"
  using assms(1)
proof (induction xs arbitrary: s)
  case Nil
  then show ?case by simp
next
  case (Cons y ys)
  show ?case
  proof (cases "body y s")
    case (Inl e')
    then show ?thesis by simp
  next
    case (Inr t)
    then have "y \<noteq> x" using assms(2) [of s] by auto
    then have "x \<in> set ys" using Cons.prems by simp
    from Cons.IH [OF this, of t] Inr show ?thesis by simp
  qed
qed

text \<open>
  Claim C6 does not hold of the code. The providers of the two modules are stubs that
  return the mock data, and the handler of a failed fetch calls the mock data once more,
  outside the \<^verbatim>\<open>try\<close>. So where the fetch raises for a keyword (a keyword that is not a
  string, or a string with a lone surrogate), the handler raises as well, and the analysis
  of any keyword list that holds this keyword raises: it returns no entry for any keyword.
\<close>

theorem provider_failure_aborts:
  assumes "kw \<in> set ks"
  shows "(fst (get_semrush_data L kw api_key g0) = Inl e \<longrightarrow>
            (\<exists>e'. analyze_competition L (PList ks) semrush_api_key ubersuggest_api_key g = Inl e')) \<and>
         (fst (get_ubersuggest_data L kw api_key g0) = Inl e \<longrightarrow>
            (\<exists>e'. analyze_competition L (PList ks) semrush_api_key ubersuggest_api_key g = Inl e')) \<and>
         (fst (get_twitter_data L kw api_key g0) = Inl e \<longrightarrow>
            (\<exists>e'. analyze_twitter_engagement L (PList ks) twitter_bearer_token g = Inl e'))"
proof -
  have c: "\<exists>e'. analyze_competition L (PList ks) semrush_api_key ubersuggest_api_key g = Inl e'"
    if "fst (mock_competition_data L kw g0) = Inl e"
  proof -
    have "competition_keyword L (get_semrush_data L) (get_ubersuggest_data L)
            semrush_api_key ubersuggest_api_key kw s = Inl e" for s
      using mock_competition_data_raises [OF that] by (rule competition_keyword_raises)
    from for_each_raises [where body = "competition_keyword L (get_semrush_data L)
        (get_ubersuggest_data L) semrush_api_key ubersuggest_api_key", OF assms this]
    show ?thesis by (simp add: analyze_competition_def analyze_competition_with_def)
  qed
  have t: "\<exists>e'. analyze_twitter_engagement L (PList ks) twitter_bearer_token g = Inl e'"
    if "fst (mock_twitter_data L kw g0) = Inl e"
  proof -
    have "twitter_keyword L (get_twitter_data L) twitter_bearer_token kw s = Inl e" for s
      using mock_twitter_data_raises [OF that] by (rule twitter_keyword_raises)
    from for_each_raises [where body = "twitter_keyword L (get_twitter_data L)
        twitter_bearer_token", OF assms this]
    show ?thesis by (simp add: analyze_twitter_engagement_def analyze_twitter_engagement_with_def)
  qed
  show ?thesis
    using c t by (simp add: get_semrush_data_def get_ubersuggest_data_def get_twitter_data_def)
qed

theorem provider_failure_aborts_witness:
  "PStr [0xD800] \<in> set demo_surrogate_keywords \<and>
   fst (get_semrush_data demo_libs (PStr [0xD800]) [107] 0) = Inl UnicodeEncodeError \<and>
   fst (get_ubersuggest_data demo_libs (PStr [0xD800]) [107] 0) = Inl UnicodeEncodeError \<and>
   fst (get_twitter_data demo_libs (PStr [0xD800]) [107] 0) = Inl UnicodeEncodeError \<and>
   (\<exists>e'. analyze_competition demo_libs (PList demo_surrogate_keywords) (Some [107]) None 0 = Inl e') \<and>
   (\<exists>e'. analyze_twitter_engagement demo_libs (PList demo_surrogate_keywords) (Some [107]) 0 = Inl e') \<and>
   analyze_competition demo_libs (PList demo_surrogate_keywords) (Some [107]) None 0 =
     Inl UnicodeEncodeError \<and>
   analyze_competition demo_libs (PList demo_surrogate_keywords) None None 0 =
     Inl UnicodeEncodeError \<and>
   analyze_twitter_engagement demo_libs (PList demo_surrogate_keywords) (Some [107]) 0 =
     Inl UnicodeEncodeError \<and>
   analyze_competition demo_libs (PList [PStr [97], PInt 1, PStr [98]]) (Some [107]) None 0 =
     Inl AttributeError"
proof -
  have m: "PStr [0xD800] \<in> set demo_surrogate_keywords"
    by (simp add: demo_surrogate_keywords_def)
  have f: "fst (get_semrush_data demo_libs (PStr [0xD800]) [107] 0) = Inl UnicodeEncodeError"
    "fst (get_ubersuggest_data demo_libs (PStr [0xD800]) [107] 0) = Inl UnicodeEncodeError"
    "fst (get_twitter_data demo_libs (PStr [0xD800]) [107] 0) = Inl UnicodeEncodeError"
    by (simp_all add: get_semrush_data_def get_ubersuggest_data_def get_twitter_data_def
          mock_competition_data_def mock_twitter_data_def encodable_def surrogate_def)
  note t = provider_failure_aborts [OF m, of demo_libs "[107]" 0 UnicodeEncodeError
      "Some [107]" None 0 "Some [107]"]
  have a: "\<exists>e'. analyze_competition demo_libs (PList demo_surrogate_keywords) (Some [107]) None 0 = Inl e'"
    using t f(1) by blast
  have b: "\<exists>e'. analyze_twitter_engagement demo_libs (PList demo_surrogate_keywords) (Some [107]) 0 = Inl e'"
    using t f(3) by blast
  have c1: "analyze_competition demo_libs (PList demo_surrogate_keywords) (Some [107]) None 0 =
     Inl UnicodeEncodeError"
    by (simp add: demo_surrogate_keywords_def eval_defs provider_entry_def
       analyze_competition_def analyze_competition_with_def competition_keyword_def
       competition_try_def get_semrush_data_def mock_competition_data_def common_keywords_def)
  have c2: "analyze_competition demo_libs (PList demo_surrogate_keywords) None None 0 =
     Inl UnicodeEncodeError"
    by (simp add: demo_surrogate_keywords_def eval_defs provider_entry_def
       analyze_competition_def analyze_competition_with_def competition_keyword_def
       competition_try_def get_semrush_data_def mock_competition_data_def common_keywords_def)
  have c3: "analyze_twitter_engagement demo_libs (PList demo_surrogate_keywords) (Some [107]) 0 =
     Inl UnicodeEncodeError"
    by (simp add: demo_surrogate_keywords_def eval_defs twitter_entry_def
       analyze_twitter_engagement_def analyze_twitter_engagement_with_def twitter_keyword_def
       twitter_try_def get_twitter_data_def mock_twitter_data_def common_topics_def
       sentiment_options_def)
  have c4: "analyze_competition demo_libs (PList [PStr [97], PInt 1, PStr [98]]) (Some [107]) None 0 =
     Inl AttributeError"
    by (simp add: eval_defs provider_entry_def
       analyze_competition_def analyze_competition_with_def competition_keyword_def
       competition_try_def get_semrush_data_def mock_competition_data_def common_keywords_def)
  show ?thesis
    by (intro conjI) (rule m f a b c1 c2 c3 c4)+
qed

section \<open>A string in the place of the keyword list\<close>










end
